theory Spec2Isabelle
  imports Main "HOL-Library.Word"
begin

unbundle bit_operations_syntax

section \<open>Tokens and syntax trees (types.ts)\<close>

text \<open>
  The token kinds are the string literals of \<^verbatim>\<open>TokenType\<close>; each becomes a constructor
  \<open>T_\<close>\<^emph>\<open>name\<close>.
\<close>

datatype TokenType =
    T_and | T_class | T_else | T_false | T_for | T_fun | T_if | T_nil | T_or
  | T_print | T_return | T_super | T_this | T_true | T_var | T_while
  | T_left_paren | T_right_paren | T_left_brace | T_right_brace
  | T_comma | T_dot | T_minus | T_plus | T_semicolon | T_slash | T_star
  | T_bang | T_bang_equal | T_equal | T_equal_equal
  | T_greater | T_greater_equal | T_less | T_less_equal
  | T_identifier | T_string | T_number | T_eof

text \<open>
  A JavaScript number is an IEEE-754 double; it is kept as its 64-bit pattern. Only
  the comparison \<^verbatim>\<open>===\<close> is defined on it here; arithmetic and the conversion from
  text are operations of the host, taken as parameters where the code uses them.
\<close>

type_synonym number = "64 word"

datatype TokenLiteral = NoLiteral | StringLiteral string | NumberLiteral number

datatype Token = Token (ttype: TokenType) (lexeme: string) (literal: TokenLiteral) (line: nat)

text \<open>
  The value of a \<^verbatim>\<open>Literal\<close> node: \<^verbatim>\<open>number | string | boolean | null\<close>.
\<close>

datatype LiteralValue = LitNil | LitBool bool | LitNumber number | LitString string

text \<open>
  The interpreter's side-table is a JavaScript \<^verbatim>\<open>Map\<close> keyed by object
  identity. The four node kinds that are ever used as keys (assignment, super, this,
  variable) carry that identity as a natural number, given to the node when the
  parser creates it.
\<close>

datatype Expr =
    AssignmentE nat Token Expr
  | BinaryE Expr Token Expr
  | CallE Expr Token "Expr list"
  | GetE Expr Token
  | GroupingE Expr
  | LiteralE LiteralValue
  | LogicalE Expr Token Expr
  | SetE Expr Token Expr
  | SuperE nat Token Token
  | ThisE nat Token
  | UnaryE Token Expr
  | VariableE nat Token

text \<open>
  \<^verbatim>\<open>Class.superclass\<close> is a \<^verbatim>\<open>Variable | null\<close>: the identity and the name token of the
  variable node, when there is one.
\<close>

datatype Stmt =
    BlockS "Stmt list"
  | ClassS Token "(nat \<times> Token) option" "FunctionStmt list"
  | ExpressionS Expr
  | FunctionS FunctionStmt
  | IfS Expr Stmt "Stmt option"
  | PrintS Expr
  | ReturnS Token "Expr option"
  | VarS Token "Expr option"
  | WhileS Expr Stmt
and FunctionStmt =
    FunctionStmt (fname: Token) (params: "Token list") (body: "Stmt list")

section \<open>Runtime values and objects (interpreter.ts, environment.ts)\<close>

text \<open>
  JavaScript objects are references: a \<^verbatim>\<open>LoxFunction\<close>, \<^verbatim>\<open>LoxClass\<close>, \<^verbatim>\<open>LoxInstance\<close> or
  \<^verbatim>\<open>Environment\<close> is an address into a store of objects of its class (the index in
  a list that only grows). The one native callable, \<open>clock\<close>, is created once.
  \<open>VUndefined\<close> is JavaScript's \<^verbatim>\<open>undefined\<close>: the type \<^verbatim>\<open>Value\<close> leaves it out, but
  \<^verbatim>\<open>getAt\<close> casts the result of \<^verbatim>\<open>Map.get\<close> to \<^verbatim>\<open>Value\<close>, so it can flow like one.
\<close>

datatype Value =
    VUndefined
  | VNil
  | VBool bool
  | VString string
  | VNumber number
  | VClock
  | VFunction nat
  | VClass nat
  | VInstance nat

text \<open>
  What a \<^verbatim>\<open>throw\<close> carries. \<open>RuntimeError\<close> and \<open>Return\<close> are the two classes of the
  interpreter; \<open>TypeError\<close> is the host's exception on a property read of
  \<^verbatim>\<open>null\<close> or \<^verbatim>\<open>undefined\<close>; \<open>Timeout\<close> is the model's own, for a run that needs more
  steps than the fuel it was given.
\<close>

datatype Signal = RuntimeError Token string | Return Value | TypeError | Timeout

record Environment =
  enclosing :: "nat option"
  vals :: "string \<rightharpoonup> Value"

record LoxFunction =
  decl :: FunctionStmt
  closure :: nat
  isInitializer :: bool

record LoxClass =
  cname :: string
  superclass :: "nat option"
  methods :: "string \<rightharpoonup> nat"

record LoxInstance =
  klass :: nat
  fieldMap :: "string \<rightharpoonup> Value"

text \<open>\<^verbatim>\<open>Map.get\<close>: \<^verbatim>\<open>undefined\<close> for a key that is absent.\<close>

definition mapGet :: "(string \<rightharpoonup> Value) \<Rightarrow> string \<Rightarrow> Value" where
  "mapGet m k = (case m k of None \<Rightarrow> VUndefined | Some v \<Rightarrow> v)"

subsection \<open>Environment\<close>

definition newEnvironment :: "nat option \<Rightarrow> Environment list \<Rightarrow> nat \<times> Environment list" where
  "newEnvironment encl es = (length es, es @ [\<lparr>enclosing = encl, vals = Map.empty\<rparr>])"

definition envDefine :: "nat \<Rightarrow> string \<Rightarrow> Value \<Rightarrow> Environment list \<Rightarrow> Environment list" where
  "envDefine a name v es = es[a := (es ! a)\<lparr>vals := (vals (es ! a))(name \<mapsto> v)\<rparr>]"

text \<open>
  \<^verbatim>\<open>Environment.get\<close> and \<^verbatim>\<open>Environment.assign\<close> follow \<^verbatim>\<open>enclosing\<close>. The field is read-only and set by the
  constructor from an environment that exists already, so an enclosing environment
  is always older than its child; the recursion is on that order, and the branch
  for a link that is not older (no run creates one) is a walk that never ends.
\<close>

function envGet :: "Environment list \<Rightarrow> nat \<Rightarrow> Token \<Rightarrow> Signal + Value" where
  "envGet es a name =
     (let v = mapGet (vals (es ! a)) (lexeme name) in
      if v \<noteq> VUndefined then Inr v
      else (case enclosing (es ! a) of
              Some e \<Rightarrow> if e < a then envGet es e name else Inl Timeout
            | None \<Rightarrow> Inl (RuntimeError name (''Undefined variable '' @ [CHR 0x27] @ lexeme name @ [CHR 0x27] @ ''.''))))"
  by pat_completeness auto
termination
  by (relation "measure (\<lambda>(es, a, name). a)") auto
declare envGet.simps [simp del]

function envAssign :: "Environment list \<Rightarrow> nat \<Rightarrow> Token \<Rightarrow> Value \<Rightarrow> Signal + Environment list" where
  "envAssign es a name v =
     (if vals (es ! a) (lexeme name) \<noteq> None then Inr (envDefine a (lexeme name) v es)
      else (case enclosing (es ! a) of
              Some e \<Rightarrow> if e < a then envAssign es e name v else Inl Timeout
            | None \<Rightarrow> Inl (RuntimeError name (''Undefined variable '' @ [CHR 0x27] @ lexeme name @ [CHR 0x27] @ ''.''))))"
  by pat_completeness auto
termination
  by (relation "measure (\<lambda>(es, a, name, v). a)") auto
declare envAssign.simps [simp del]

text \<open>
  \<^verbatim>\<open>ancestor\<close>: the loop \<^verbatim>\<open>for (i = 0; i < distance; i++) env = env.enclosing\<close>. The
  variable \<^verbatim>\<open>env\<close> can become \<^verbatim>\<open>null\<close> (the cast hides it); the next read of
  \<^verbatim>\<open>env.enclosing\<close> then throws.
\<close>

fun ancestorLoop :: "Environment list \<Rightarrow> nat option \<Rightarrow> nat \<Rightarrow> Signal + nat option" where
  "ancestorLoop es env 0 = Inr env"
| "ancestorLoop es env (Suc k) =
     (case env of
        None \<Rightarrow> Inl TypeError
      | Some a \<Rightarrow> ancestorLoop es (enclosing (es ! a)) k)"

definition ancestor :: "Environment list \<Rightarrow> nat \<Rightarrow> nat \<Rightarrow> Signal + nat option" where
  "ancestor es a distance = ancestorLoop es (Some a) distance"

definition getAt :: "Environment list \<Rightarrow> nat \<Rightarrow> nat \<Rightarrow> string \<Rightarrow> Signal + Value" where
  "getAt es a distance name =
     (case ancestor es a distance of
        Inl e \<Rightarrow> Inl e
      | Inr None \<Rightarrow> Inl TypeError
      | Inr (Some b) \<Rightarrow> Inr (mapGet (vals (es ! b)) name))"

definition assignAt :: "Environment list \<Rightarrow> nat \<Rightarrow> nat \<Rightarrow> Token \<Rightarrow> Value \<Rightarrow> Signal + Environment list" where
  "assignAt es a distance name v =
     (case ancestor es a distance of
        Inl e \<Rightarrow> Inl e
      | Inr None \<Rightarrow> Inl TypeError
      | Inr (Some b) \<Rightarrow> Inr (envDefine b (lexeme name) v es))"

subsection \<open>The interpreter's state\<close>

text \<open>
  The fields of \<^verbatim>\<open>Interpreter\<close> (\<^verbatim>\<open>globals\<close> is the environment at address 0,
  \<^verbatim>\<open>environment\<close>, \<^verbatim>\<open>locals\<close>), the four object stores, the lines written by
  \<^verbatim>\<open>console.log\<close>, and the number of readings of the clock so far.
\<close>

record Interpreter =
  envs :: "Environment list"
  funs :: "LoxFunction list"
  classes :: "LoxClass list"
  instances :: "LoxInstance list"
  environment :: nat
  locals :: "nat \<rightharpoonup> nat"
  stdout :: "string list"
  clockReads :: nat

definition globals :: nat where
  "globals = 0"

text \<open>
  \<^verbatim>\<open>new Interpreter()\<close>: the global environment with \<open>clock\<close> defined in it.
\<close>

definition newInterpreter :: Interpreter where
  "newInterpreter =
     \<lparr>envs = [\<lparr>enclosing = None, vals = [''clock'' \<mapsto> VClock]\<rparr>], funs = [], classes = [],
      instances = [], environment = globals, locals = Map.empty, stdout = [], clockReads = 0\<rparr>"

text \<open>\<^verbatim>\<open>Interpreter.resolve\<close>: \<^verbatim>\<open>this.locals.set(expr, depth)\<close>.\<close>

definition resolve :: "nat \<Rightarrow> nat \<Rightarrow> Interpreter \<Rightarrow> Interpreter" where
  "resolve expr depth st = st\<lparr>locals := (locals st)(expr \<mapsto> depth)\<rparr>"

subsection \<open>Truthiness and equality\<close>

definition isTruthy :: "Value \<Rightarrow> bool" where
  "isTruthy v = (if v = VNil then False else (case v of VBool b \<Rightarrow> b | _ \<Rightarrow> True))"

text \<open>
  \<^verbatim>\<open>===\<close> on two numbers, on their bit patterns: false when either is a NaN (exponent
  bits all ones and a fraction that is not zero: the 63 low bits exceed those of
  infinity), true for the two zeros, otherwise true for the same pattern.
\<close>

definition isNaN :: "number \<Rightarrow> bool" where
  "isNaN x = (x AND 0x7FFFFFFFFFFFFFFF > 0x7FF0000000000000)"

definition isZero :: "number \<Rightarrow> bool" where
  "isZero x = (x AND 0x7FFFFFFFFFFFFFFF = 0)"

definition numberEquals :: "number \<Rightarrow> number \<Rightarrow> bool" where
  "numberEquals x y = (\<not> isNaN x \<and> \<not> isNaN y \<and> (x = y \<or> (isZero x \<and> isZero y)))"

text \<open>
  \<^verbatim>\<open>a === b\<close> on values: different types are never equal; numbers as above; strings,
  booleans, \<^verbatim>\<open>null\<close> and \<^verbatim>\<open>undefined\<close> by content; objects by identity, which is the
  equality of their addresses.
\<close>

definition strictEquals :: "Value \<Rightarrow> Value \<Rightarrow> bool" where
  "strictEquals a b =
     (case (a, b) of
        (VNumber x, VNumber y) \<Rightarrow> numberEquals x y
      | _ \<Rightarrow> a = b)"

definition isEqual :: "Value \<Rightarrow> Value \<Rightarrow> bool" where
  "isEqual a b =
     (if a = VNil \<and> b = VNil then True
      else if a = VNil then False
      else strictEquals a b)"

subsection \<open>LoxFunction.bind, LoxClass.findMethod, LoxInstance.get and set\<close>

text \<open>
  A reference to a function object is followed with \<open>funAt\<close> where the declaration
  of the function is taken out of the store, to be copied (\<^verbatim>\<open>bind\<close>) or run (\<^verbatim>\<open>call\<close>);
  a reference that denotes no object of the store (no run creates one) is the host's
  failure there.
\<close>

definition funAt :: "Interpreter \<Rightarrow> nat \<Rightarrow> LoxFunction option" where
  "funAt st f = (if f < length (funs st) then Some (funs st ! f) else None)"

text \<open>
  \<^verbatim>\<open>bind(instance)\<close>: the argument is stored as it is (\<^verbatim>\<open>evaluateSuper\<close> passes a
  value it has only cast to \<^verbatim>\<open>LoxInstance\<close>).
\<close>

definition fnBind :: "nat \<Rightarrow> Value \<Rightarrow> Interpreter \<Rightarrow> (Signal + nat) \<times> Interpreter" where
  "fnBind f inst st =
     (case funAt st f of
        None \<Rightarrow> (Inl TypeError, st)
      | Some fn \<Rightarrow>
          (let (e, envs1) = newEnvironment (Some (closure fn)) (envs st);
               envs2 = envDefine e ''this'' inst envs1
           in (Inr (length (funs st)),
               st\<lparr>envs := envs2,
                  funs := funs st @ [\<lparr>decl = decl fn, closure = e, isInitializer = isInitializer fn\<rparr>]\<rparr>)))"

text \<open>
  \<^verbatim>\<open>findMethod\<close> follows \<^verbatim>\<open>superclass\<close>, a read-only field set by the constructor from a
  class that exists already: the superclass is older, and the recursion is on that
  order. The result is the method found (\<open>None\<close> is \<^verbatim>\<open>undefined\<close>); the branch for a
  superclass that is not older (no run creates one) is a walk that never ends.
\<close>

function findMethod :: "LoxClass list \<Rightarrow> nat \<Rightarrow> string \<Rightarrow> Signal + nat option" where
  "findMethod cs k name =
     (if methods (cs ! k) name \<noteq> None then Inr (methods (cs ! k) name)
      else (case superclass (cs ! k) of
              Some s \<Rightarrow> if s < k then findMethod cs s name else Inl Timeout
            | None \<Rightarrow> Inr None))"
  by pat_completeness auto
termination
  by (relation "measure (\<lambda>(cs, k, name). k)") auto
declare findMethod.simps [simp del]

definition undefinedProperty :: "Token \<Rightarrow> Signal" where
  "undefinedProperty name =
     RuntimeError name (''Undefined property '' @ [CHR 0x27] @ lexeme name @ [CHR 0x27] @ ''.'')"

definition instanceGet :: "nat \<Rightarrow> Token \<Rightarrow> Interpreter \<Rightarrow> (Signal + Value) \<times> Interpreter" where
  "instanceGet i name st =
     (let v = mapGet (fieldMap (instances st ! i)) (lexeme name) in
      if v \<noteq> VUndefined then (Inr v, st)
      else (case findMethod (classes st) (klass (instances st ! i)) (lexeme name) of
              Inl e \<Rightarrow> (Inl e, st)
            | Inr (Some m) \<Rightarrow>
                (case fnBind m (VInstance i) st of
                   (Inl e, st1) \<Rightarrow> (Inl e, st1)
                 | (Inr f, st1) \<Rightarrow> (Inr (VFunction f), st1))
            | Inr None \<Rightarrow> (Inl (undefinedProperty name), st)))"

definition instanceSet :: "nat \<Rightarrow> Token \<Rightarrow> Value \<Rightarrow> Interpreter \<Rightarrow> Interpreter" where
  "instanceSet i name v st =
     st\<lparr>instances := (instances st)
          [i := (instances st ! i)\<lparr>fieldMap := (fieldMap (instances st ! i))(lexeme name \<mapsto> v)\<rparr>]\<rparr>"

section \<open>The scanner (class Scanner)\<close>

text \<open>
  \<^verbatim>\<open>error\<close> and \<^verbatim>\<open>report\<close> of run.ts print one line and set \<^verbatim>\<open>hadError\<close>. A report is
  kept as the three things printed: the line, the \<^verbatim>\<open>where\<close> text and the message;
  \<^verbatim>\<open>hadError\<close> is that some report was made.
\<close>

type_synonym Report = "nat \<times> string \<times> string"

definition errorAtLine :: "nat \<Rightarrow> string \<Rightarrow> Report" where
  "errorAtLine l message = (l, [], message)"

definition errorAtToken :: "Token \<Rightarrow> string \<Rightarrow> Report" where
  "errorAtToken token message =
     (if ttype token = T_eof then (line token, '' at end'', message)
      else (line token, '' at '' @ [CHR 0x27] @ lexeme token @ [CHR 0x27], message))"

text \<open>
  The source is a list of characters, indexed from 0 as \<^verbatim>\<open>charAt\<close> indexes the string.
  The field \<^verbatim>\<open>line\<close> is \<open>lineNo\<close> here.
\<close>

record Scanner =
  source :: string
  tokens :: "Token list"
  start :: nat
  current :: nat
  lineNo :: nat
  reports :: "Report list"

definition newScanner :: "string \<Rightarrow> Scanner" where
  "newScanner src = \<lparr>source = src, tokens = [], start = 0, current = 0, lineNo = 1, reports = []\<rparr>"

definition keywordTable :: "(string \<times> TokenType) list" where
  "keywordTable =
     [(''and'', T_and), (''class'', T_class), (''else'', T_else), (''false'', T_false),
      (''for'', T_for), (''fun'', T_fun), (''if'', T_if), (''nil'', T_nil), (''or'', T_or),
      (''print'', T_print), (''return'', T_return), (''super'', T_super), (''this'', T_this),
      (''true'', T_true), (''var'', T_var), (''while'', T_while)]"

definition isKeyword :: "string \<Rightarrow> bool" where
  "isKeyword s = (s \<in> set (map fst keywordTable))"

definition isAtEnd :: "Scanner \<Rightarrow> bool" where
  "isAtEnd s = (current s \<ge> length (source s))"

text \<open>\<^verbatim>\<open>charAt\<close>: the empty string (\<open>None\<close>) beyond the end.\<close>

definition charAt :: "string \<Rightarrow> nat \<Rightarrow> char option" where
  "charAt src i = (if i < length src then Some (src ! i) else None)"

text \<open>\<^verbatim>\<open>substring(a, b)\<close>, at its call sites, where \<open>a \<le> b\<close>.\<close>

definition substring :: "string \<Rightarrow> nat \<Rightarrow> nat \<Rightarrow> string" where
  "substring src a b = take (b - a) (drop a src)"

definition advance :: "Scanner \<Rightarrow> char option \<times> Scanner" where
  "advance s = (charAt (source s) (current s), s\<lparr>current := current s + 1\<rparr>)"

definition matchChar :: "char \<Rightarrow> Scanner \<Rightarrow> bool \<times> Scanner" where
  "matchChar expected s =
     (if isAtEnd s then (False, s)
      else if charAt (source s) (current s) \<noteq> Some expected then (False, s)
      else (True, s\<lparr>current := current s + 1\<rparr>))"

definition peek :: "Scanner \<Rightarrow> char" where
  "peek s = (if isAtEnd s then CHR 0x00 else source s ! current s)"

definition peekNext :: "Scanner \<Rightarrow> char" where
  "peekNext s =
     (if current s + 1 \<ge> length (source s) then CHR 0x00 else source s ! (current s + 1))"

definition addToken :: "TokenType \<Rightarrow> TokenLiteral \<Rightarrow> Scanner \<Rightarrow> Scanner" where
  "addToken ty lit s =
     s\<lparr>tokens := tokens s @ [Token ty (substring (source s) (start s) (current s)) lit (lineNo s)]\<rparr>"

definition scanError :: "nat \<Rightarrow> string \<Rightarrow> Scanner \<Rightarrow> Scanner" where
  "scanError l message s = s\<lparr>reports := reports s @ [errorAtLine l message]\<rparr>"

definition isDigit :: "char \<Rightarrow> bool" where
  "isDigit c = (of_char (CHR ''0'') \<le> (of_char c :: nat) \<and> (of_char c :: nat) \<le> of_char (CHR ''9''))"

definition isAlpha :: "char \<Rightarrow> bool" where
  "isAlpha c =
     ((of_char (CHR ''a'') \<le> (of_char c :: nat) \<and> (of_char c :: nat) \<le> of_char (CHR ''z''))
      \<or> (of_char (CHR ''A'') \<le> (of_char c :: nat) \<and> (of_char c :: nat) \<le> of_char (CHR ''Z''))
      \<or> c = CHR ''_'')"

definition isAlphaNumeric :: "char \<Rightarrow> bool" where
  "isAlphaNumeric c = (isAlpha c \<or> isDigit c)"

lemma isDigit_peek_not_at_end: "isDigit (peek s) \<Longrightarrow> current s < length (source s)"
  by (cases "isAtEnd s") (simp_all add: peek_def isDigit_def isAtEnd_def)

lemma isAlphaNumeric_peek_not_at_end: "isAlphaNumeric (peek s) \<Longrightarrow> current s < length (source s)"
  by (cases "isAtEnd s") (simp_all add: peek_def isAlphaNumeric_def isAlpha_def isDigit_def isAtEnd_def)

text \<open>The loop of a line comment: \<^verbatim>\<open>while (peek() !== "\n" && !isAtEnd()) advance()\<close>.\<close>

function commentLoop :: "Scanner \<Rightarrow> Scanner" where
  "commentLoop s =
     (if peek s \<noteq> CHR 0x0A \<and> \<not> isAtEnd s then commentLoop (snd (advance s)) else s)"
  by pat_completeness auto
termination
  by (relation "measure (\<lambda>s. length (source s) - current s)") (auto simp: advance_def isAtEnd_def)
declare commentLoop.simps [simp del]

text \<open>The loop of \<^verbatim>\<open>string()\<close>.\<close>

function stringLoop :: "Scanner \<Rightarrow> Scanner" where
  "stringLoop s =
     (if peek s \<noteq> CHR 0x22 \<and> \<not> isAtEnd s
      then stringLoop (snd (advance (if peek s = CHR 0x0A then s\<lparr>lineNo := lineNo s + 1\<rparr> else s)))
      else s)"
  by pat_completeness auto
termination
  by (relation "measure (\<lambda>s. length (source s) - current s)") (auto simp: advance_def isAtEnd_def)
declare stringLoop.simps [simp del]

definition scanString :: "Scanner \<Rightarrow> Scanner" where
  "scanString s =
     (let s1 = stringLoop s in
      if isAtEnd s1 then scanError (lineNo s1) ''Unterminated string.'' s1
      else (let s2 = snd (advance s1);
                v = substring (source s2) (start s2 + 1) (current s2 - 1)
            in addToken T_string (StringLiteral v) s2))"

function digitLoop :: "Scanner \<Rightarrow> Scanner" where
  "digitLoop s = (if isDigit (peek s) then digitLoop (snd (advance s)) else s)"
  by pat_completeness auto
termination
  by (relation "measure (\<lambda>s. length (source s) - current s)")
     (auto simp: advance_def dest: isDigit_peek_not_at_end)
declare digitLoop.simps [simp del]

text \<open>\<^verbatim>\<open>number()\<close>; \<open>pf\<close> is the host's \<^verbatim>\<open>Number.parseFloat\<close>.\<close>

definition scanNumber :: "(string \<Rightarrow> number) \<Rightarrow> Scanner \<Rightarrow> Scanner" where
  "scanNumber pf s =
     (let s1 = digitLoop s;
          s2 = (if peek s1 = CHR ''.'' \<and> isDigit (peekNext s1) then digitLoop (snd (advance s1)) else s1)
      in addToken T_number (NumberLiteral (pf (substring (source s2) (start s2) (current s2)))) s2)"

function identifierLoop :: "Scanner \<Rightarrow> Scanner" where
  "identifierLoop s = (if isAlphaNumeric (peek s) then identifierLoop (snd (advance s)) else s)"
  by pat_completeness auto
termination
  by (relation "measure (\<lambda>s. length (source s) - current s)")
     (auto simp: advance_def dest: isAlphaNumeric_peek_not_at_end)
declare identifierLoop.simps [simp del]

definition scanIdentifier :: "Scanner \<Rightarrow> Scanner" where
  "scanIdentifier s =
     (let s1 = identifierLoop s;
          text = substring (source s1) (start s1) (current s1);
          ty = (case map_of keywordTable text of Some k \<Rightarrow> k | None \<Rightarrow> T_identifier)
      in addToken ty NoLiteral s1)"

definition addTokenIfMatch :: "char \<Rightarrow> TokenType \<Rightarrow> TokenType \<Rightarrow> Scanner \<Rightarrow> Scanner" where
  "addTokenIfMatch expected yes no s =
     (let (m, s1) = matchChar expected s in addToken (if m then yes else no) NoLiteral s1)"

text \<open>
  \<^verbatim>\<open>scanToken\<close>: \<^verbatim>\<open>const c = this.advance()\<close>, then the \<^verbatim>\<open>switch (c)\<close>, whose
  \<^verbatim>\<open>default\<close> branch is \<open>scanDefault\<close>.
\<close>

definition scanDefault :: "(string \<Rightarrow> number) \<Rightarrow> char option \<Rightarrow> Scanner \<Rightarrow> Scanner" where
  "scanDefault pf c s =
     (case c of
        Some ch \<Rightarrow>
          if isDigit ch then scanNumber pf s
          else if isAlpha ch then scanIdentifier s
          else scanError (lineNo s) ''Unexpected character.'' s
      | None \<Rightarrow> scanError (lineNo s) ''Unexpected character.'' s)"

definition scanSlash :: "Scanner \<Rightarrow> Scanner" where
  "scanSlash s =
     (let (m, s2) = matchChar (CHR ''/'') s in
      if m then commentLoop s2 else addToken T_slash NoLiteral s2)"

definition scanSwitch :: "(string \<Rightarrow> number) \<Rightarrow> char option \<Rightarrow> Scanner \<Rightarrow> Scanner" where
  "scanSwitch pf c s =
     (if c = Some (CHR ''('') then addToken T_left_paren NoLiteral s
      else if c = Some (CHR '')'') then addToken T_right_paren NoLiteral s
      else if c = Some (CHR ''{'') then addToken T_left_brace NoLiteral s
      else if c = Some (CHR ''}'') then addToken T_right_brace NoLiteral s
      else if c = Some (CHR '','') then addToken T_comma NoLiteral s
      else if c = Some (CHR ''.'') then addToken T_dot NoLiteral s
      else if c = Some (CHR ''-'') then addToken T_minus NoLiteral s
      else if c = Some (CHR ''+'') then addToken T_plus NoLiteral s
      else if c = Some (CHR '';'') then addToken T_semicolon NoLiteral s
      else if c = Some (CHR ''*'') then addToken T_star NoLiteral s
      else if c = Some (CHR ''!'') then addTokenIfMatch (CHR ''='') T_bang_equal T_bang s
      else if c = Some (CHR ''='') then addTokenIfMatch (CHR ''='') T_equal_equal T_equal s
      else if c = Some (CHR ''<'') then addTokenIfMatch (CHR ''='') T_less_equal T_less s
      else if c = Some (CHR ''>'') then addTokenIfMatch (CHR ''='') T_greater_equal T_greater s
      else if c = Some (CHR ''/'') then scanSlash s
      else if c = Some (CHR '' '') \<or> c = Some (CHR 0x0D) \<or> c = Some (CHR 0x09) then s
      else if c = Some (CHR 0x0A) then s\<lparr>lineNo := lineNo s + 1\<rparr>
      else if c = Some (CHR 0x22) then scanString s
      else scanDefault pf c s)"

definition scanToken :: "(string \<Rightarrow> number) \<Rightarrow> Scanner \<Rightarrow> Scanner" where
  "scanToken pf s = (let (c, s1) = advance s in scanSwitch pf c s1)"

lemma commentLoop_frame: "source (commentLoop s) = source s \<and> current s \<le> current (commentLoop s)"
proof (induction s rule: commentLoop.induct)
  case (1 s)
  show ?case
  proof (cases "peek s \<noteq> CHR 0x0A \<and> \<not> isAtEnd s")
    case True
    then have "commentLoop s = commentLoop (snd (advance s))"
      by (subst commentLoop.simps) simp
    with 1 True show ?thesis by (simp add: advance_def)
  next
    case False
    then have "commentLoop s = s"
      by (subst commentLoop.simps) auto
    then show ?thesis by simp
  qed
qed

lemma stringLoop_frame: "source (stringLoop s) = source s \<and> current s \<le> current (stringLoop s)"
proof (induction s rule: stringLoop.induct)
  case (1 s)
  show ?case
  proof (cases "peek s \<noteq> CHR 0x22 \<and> \<not> isAtEnd s")
    case True
    then have "stringLoop s = stringLoop (snd (advance (if peek s = CHR 0x0A then s\<lparr>lineNo := lineNo s + 1\<rparr> else s)))"
      by (subst stringLoop.simps) simp
    with 1 True show ?thesis by (auto simp: advance_def split: if_splits)
  next
    case False
    then have "stringLoop s = s"
      by (subst stringLoop.simps) auto
    then show ?thesis by simp
  qed
qed

lemma digitLoop_frame: "source (digitLoop s) = source s \<and> current s \<le> current (digitLoop s)"
proof (induction s rule: digitLoop.induct)
  case (1 s)
  show ?case
  proof (cases "isDigit (peek s)")
    case True
    then have "digitLoop s = digitLoop (snd (advance s))"
      by (subst digitLoop.simps) simp
    with 1 True show ?thesis by (simp add: advance_def)
  next
    case False
    then have "digitLoop s = s"
      by (subst digitLoop.simps) auto
    then show ?thesis by simp
  qed
qed

lemma identifierLoop_frame: "source (identifierLoop s) = source s \<and> current s \<le> current (identifierLoop s)"
proof (induction s rule: identifierLoop.induct)
  case (1 s)
  show ?case
  proof (cases "isAlphaNumeric (peek s)")
    case True
    then have "identifierLoop s = identifierLoop (snd (advance s))"
      by (subst identifierLoop.simps) simp
    with 1 True show ?thesis by (simp add: advance_def)
  next
    case False
    then have "identifierLoop s = s"
      by (subst identifierLoop.simps) auto
    then show ?thesis by simp
  qed
qed

lemma addToken_frame [simp]:
  "source (addToken ty lit s) = source s" "current (addToken ty lit s) = current s"
  by (simp_all add: addToken_def)

lemma scanError_frame [simp]:
  "source (scanError l m s) = source s" "current (scanError l m s) = current s"
  by (simp_all add: scanError_def)

lemma matchChar_frame:
  "source (snd (matchChar c s)) = source s \<and> current s \<le> current (snd (matchChar c s))"
  by (simp add: matchChar_def)

lemma scanString_frame: "source (scanString s) = source s \<and> current s \<le> current (scanString s)"
  using stringLoop_frame [of s]
  by (auto simp: scanString_def Let_def advance_def)

lemma scanNumber_frame: "source (scanNumber pf s) = source s \<and> current s \<le> current (scanNumber pf s)"
proof -
  let ?s1 = "digitLoop s"
  have 1: "source ?s1 = source s \<and> current s \<le> current ?s1"
    by (rule digitLoop_frame)
  have 2: "source (digitLoop (snd (advance ?s1))) = source s
           \<and> current s \<le> current (digitLoop (snd (advance ?s1)))"
    using digitLoop_frame [of "snd (advance ?s1)"] 1 by (simp add: advance_def)
  show ?thesis
    using 1 2 by (simp add: scanNumber_def Let_def)
qed

lemma scanIdentifier_frame:
  "source (scanIdentifier s) = source s \<and> current s \<le> current (scanIdentifier s)"
  using identifierLoop_frame [of s] by (simp add: scanIdentifier_def Let_def)

lemma addTokenIfMatch_frame:
  "source (addTokenIfMatch c y n s) = source s \<and> current s \<le> current (addTokenIfMatch c y n s)"
  using matchChar_frame [of c s] by (cases "matchChar c s") (simp add: addTokenIfMatch_def)

lemma scanSlash_frame:
  "source (scanSlash s) = source s \<and> current s \<le> current (scanSlash s)"
proof (cases "matchChar (CHR ''/'') s")
  case (Pair m s2)
  then have "source s2 = source s \<and> current s \<le> current s2"
    using matchChar_frame [of "CHR ''/''" s] by simp
  then show ?thesis
    using Pair commentLoop_frame [of s2] by (simp add: scanSlash_def)
qed

lemma scanDefault_frame:
  "source (scanDefault pf c s) = source s \<and> current s \<le> current (scanDefault pf c s)"
  using scanNumber_frame [of pf s] scanIdentifier_frame [of s]
  by (simp add: scanDefault_def split: option.splits)

lemmas scanner_frames =
  scanString_frame [THEN conjunct1] scanString_frame [THEN conjunct2]
  scanDefault_frame [THEN conjunct1] scanDefault_frame [THEN conjunct2]
  scanSlash_frame [THEN conjunct1] scanSlash_frame [THEN conjunct2]
  addTokenIfMatch_frame [THEN conjunct1] addTokenIfMatch_frame [THEN conjunct2]

lemma scanSwitch_source: "source (scanSwitch pf c s) = source s"
  unfolding scanSwitch_def by (simp add: scanner_frames)

lemma scanSwitch_current: "current s \<le> current (scanSwitch pf c s)"
  unfolding scanSwitch_def by (simp add: scanner_frames)

lemma scanToken_frame:
  "source (scanToken pf s) = source s \<and> current s < current (scanToken pf s)"
  using scanSwitch_source [where pf = pf and c = "charAt (source s) (current s)"
      and s = "s\<lparr>current := current s + 1\<rparr>"]
    scanSwitch_current [where pf = pf and c = "charAt (source s) (current s)"
      and s = "s\<lparr>current := current s + 1\<rparr>"]
  by (simp add: scanToken_def advance_def)

text \<open>
  \<^verbatim>\<open>scanTokens\<close>: the loop, then the \<^verbatim>\<open>eof\<close> token. The result is the scanner with the
  returned array in \<open>tokens\<close>, so that the reports made on the way stay in view.
\<close>

function scanLoop :: "(string \<Rightarrow> number) \<Rightarrow> Scanner \<Rightarrow> Scanner" where
  "scanLoop pf s =
     (if \<not> isAtEnd s then scanLoop pf (scanToken pf (s\<lparr>start := current s\<rparr>)) else s)"
  by pat_completeness auto
termination
proof (relation "measure (\<lambda>(pf, s). length (source s) - current s)")
  show "wf (measure (\<lambda>(pf, s). length (source s) - current s))"
    by simp
next
  fix pf :: "string \<Rightarrow> number" and s :: Scanner
  assume "\<not> isAtEnd s"
  then have "current s < length (source s)"
    by (simp add: isAtEnd_def)
  moreover have "source (scanToken pf (s\<lparr>start := current s\<rparr>)) = source s"
    "current s < current (scanToken pf (s\<lparr>start := current s\<rparr>))"
    using scanToken_frame [of pf "s\<lparr>start := current s\<rparr>"] by simp_all
  ultimately show "((pf, scanToken pf (s\<lparr>start := current s\<rparr>)), (pf, s))
      \<in> measure (\<lambda>(pf, s). length (source s) - current s)"
    by simp
qed

declare scanLoop.simps [simp del]

definition scanTokens :: "(string \<Rightarrow> number) \<Rightarrow> string \<Rightarrow> Scanner" where
  "scanTokens pf src =
     (let s = scanLoop pf (newScanner src)
      in s\<lparr>tokens := tokens s @ [Token T_eof [] NoLiteral (lineNo s)]\<rparr>)"

section \<open>The resolver (class Resolver)\<close>

datatype FunctionType = FT_none | FT_function | FT_method | FT_initializer

datatype ClassType = CT_none | CT_class | CT_subclass

text \<open>
  The resolver holds a reference to the interpreter, of which it calls \<^verbatim>\<open>resolve\<close>
  only; the interpreter's state is a field of the resolver's state here. A scope is
  a \<^verbatim>\<open>Map<string, boolean>\<close>; the stack \<^verbatim>\<open>scopes\<close> is the array, innermost scope last. The
  reports made through \<^verbatim>\<open>error(token, message)\<close> are kept in \<open>rerrors\<close>.
\<close>

record Resolver =
  interpreter :: Interpreter
  scopes :: "(string \<rightharpoonup> bool) list"
  currentFunction :: FunctionType
  currentClass :: ClassType
  rerrors :: "Report list"

definition newResolver :: "Interpreter \<Rightarrow> Resolver" where
  "newResolver i =
     \<lparr>interpreter = i, scopes = [], currentFunction = FT_none, currentClass = CT_none, rerrors = []\<rparr>"

definition reportError :: "Token \<Rightarrow> string \<Rightarrow> Resolver \<Rightarrow> Resolver" where
  "reportError token message r = r\<lparr>rerrors := rerrors r @ [errorAtToken token message]\<rparr>"

text \<open>
  \<^verbatim>\<open>this.currScope().set(name, b)\<close>. It is called only where the stack is not empty
  (after \<^verbatim>\<open>beginScope\<close>, or behind the test \<^verbatim>\<open>scopes.length === 0\<close>).
\<close>

definition currScopeSet :: "string \<Rightarrow> bool \<Rightarrow> Resolver \<Rightarrow> Resolver" where
  "currScopeSet name b r =
     r\<lparr>scopes := (scopes r)[length (scopes r) - 1 := (last (scopes r))(name \<mapsto> b)]\<rparr>"

definition declareName :: "Token \<Rightarrow> Resolver \<Rightarrow> Resolver" where
  "declareName name r =
     (if length (scopes r) = 0 then r
      else (let r1 = (if last (scopes r) (lexeme name) \<noteq> None
                      then reportError name ''Already a variable with this name in this scope.'' r
                      else r)
            in currScopeSet (lexeme name) False r1))"

definition defineName :: "Token \<Rightarrow> Resolver \<Rightarrow> Resolver" where
  "defineName name r =
     (if length (scopes r) = 0 then r else currScopeSet (lexeme name) True r)"

definition beginScope :: "Resolver \<Rightarrow> Resolver" where
  "beginScope r = r\<lparr>scopes := scopes r @ [Map.empty]\<rparr>"

definition endScope :: "Resolver \<Rightarrow> Resolver" where
  "endScope r = r\<lparr>scopes := butlast (scopes r)\<rparr>"

text \<open>
  \<^verbatim>\<open>resolveLocal\<close>: the loop \<^verbatim>\<open>for (i = scopes.length - 1; i >= 0; i--)\<close>; the third
  argument of the loop function is \<open>i + 1\<close>.
\<close>

fun resolveLocalLoop :: "nat \<Rightarrow> Token \<Rightarrow> nat \<Rightarrow> Resolver \<Rightarrow> Resolver" where
  "resolveLocalLoop expr name 0 r = r"
| "resolveLocalLoop expr name (Suc i) r =
     (if (scopes r ! i) (lexeme name) \<noteq> None
      then r\<lparr>interpreter := resolve expr (length (scopes r) - 1 - i) (interpreter r)\<rparr>
      else resolveLocalLoop expr name i r)"

definition resolveLocal :: "nat \<Rightarrow> Token \<Rightarrow> Resolver \<Rightarrow> Resolver" where
  "resolveLocal expr name r = resolveLocalLoop expr name (length (scopes r)) r"

fun resolveExpr :: "Expr \<Rightarrow> Resolver \<Rightarrow> Resolver"
  and resolveExprs :: "Expr list \<Rightarrow> Resolver \<Rightarrow> Resolver" where
  "resolveExpr (AssignmentE i name v) r = resolveLocal i name (resolveExpr v r)"
| "resolveExpr (BinaryE l op rt) r = resolveExpr rt (resolveExpr l r)"
| "resolveExpr (CallE callee paren args) r = resolveExprs args (resolveExpr callee r)"
| "resolveExpr (GetE obj name) r = resolveExpr obj r"
| "resolveExpr (GroupingE e) r = resolveExpr e r"
| "resolveExpr (LiteralE v) r = r"
| "resolveExpr (LogicalE l op rt) r = resolveExpr rt (resolveExpr l r)"
| "resolveExpr (SetE obj name v) r = resolveExpr obj (resolveExpr v r)"
| "resolveExpr (SuperE i keyword meth) r =
     resolveLocal i keyword
       (if currentClass r = CT_none
        then reportError keyword ''Can't use 'super' outside of a class.'' r
        else if currentClass r \<noteq> CT_subclass
        then reportError keyword ''Can't use 'super' in a class with no superclass.'' r
        else r)"
| "resolveExpr (ThisE i keyword) r =
     (if currentClass r = CT_none
      then reportError keyword ''Can't use 'this' outside of a class.'' r
      else resolveLocal i keyword r)"
| "resolveExpr (UnaryE op e) r = resolveExpr e r"
| "resolveExpr (VariableE i name) r =
     resolveLocal i name
       (if length (scopes r) > 0 \<and> last (scopes r) (lexeme name) = Some False
        then reportError name ''Can't read local variable in its own initializer.'' r
        else r)"
| "resolveExprs [] r = r"
| "resolveExprs (e # es) r = resolveExprs es (resolveExpr e r)"

text \<open>The loop over the parameters in \<^verbatim>\<open>resolveFunction\<close>.\<close>

fun declareParams :: "Token list \<Rightarrow> Resolver \<Rightarrow> Resolver" where
  "declareParams [] r = r"
| "declareParams (p # ps) r = declareParams ps (defineName p (declareName p r))"

fun resolveStmt :: "Stmt \<Rightarrow> Resolver \<Rightarrow> Resolver"
  and resolveStmts :: "Stmt list \<Rightarrow> Resolver \<Rightarrow> Resolver"
  and resolveFunction :: "FunctionStmt \<Rightarrow> FunctionType \<Rightarrow> Resolver \<Rightarrow> Resolver"
  and resolveMethods :: "FunctionStmt list \<Rightarrow> Resolver \<Rightarrow> Resolver" where
  "resolveStmt (BlockS ss) r = endScope (resolveStmts ss (beginScope r))"
| "resolveStmt (ClassS name sc ms) r =
     (let enclosingClass = currentClass r;
          r1 = defineName name (declareName name (r\<lparr>currentClass := CT_class\<rparr>));
          r2 = (case sc of
                  Some (i, sname) \<Rightarrow>
                    if lexeme name = lexeme sname
                    then reportError sname ''A class can't inherit from itself.'' r1
                    else r1
                | None \<Rightarrow> r1);
          r3 = (case sc of
                  Some (i, sname) \<Rightarrow> resolveExpr (VariableE i sname) (r2\<lparr>currentClass := CT_subclass\<rparr>)
                | None \<Rightarrow> r2);
          r4 = (case sc of
                  Some x \<Rightarrow> currScopeSet ''super'' True (beginScope r3)
                | None \<Rightarrow> r3);
          r5 = currScopeSet ''this'' True (beginScope r4);
          r6 = resolveMethods ms r5;
          r7 = endScope r6;
          r8 = (case sc of Some x \<Rightarrow> endScope r7 | None \<Rightarrow> r7)
      in r8\<lparr>currentClass := enclosingClass\<rparr>)"
| "resolveStmt (ExpressionS e) r = resolveExpr e r"
| "resolveStmt (FunctionS fn) r =
     resolveFunction fn FT_function (defineName (fname fn) (declareName (fname fn) r))"
| "resolveStmt (IfS c t e) r =
     (let r1 = resolveStmt t (resolveExpr c r)
      in (case e of None \<Rightarrow> r1 | Some el \<Rightarrow> resolveStmt el r1))"
| "resolveStmt (PrintS e) r = resolveExpr e r"
| "resolveStmt (ReturnS keyword v) r =
     (let r1 = (if currentFunction r = FT_none
                then reportError keyword ''Can't return from top-level code.'' r
                else r)
      in (case v of
            None \<Rightarrow> r1
          | Some e \<Rightarrow>
              resolveExpr e
                (if currentFunction r1 = FT_initializer
                 then reportError keyword ''Can't return a value from an initializer.'' r1
                 else r1)))"
| "resolveStmt (VarS name init) r =
     defineName name
       (case init of
          None \<Rightarrow> declareName name r
        | Some e \<Rightarrow> resolveExpr e (declareName name r))"
| "resolveStmt (WhileS c b) r = resolveStmt b (resolveExpr c r)"
| "resolveStmts [] r = r"
| "resolveStmts (s # ss) r = resolveStmts ss (resolveStmt s r)"
| "resolveFunction (FunctionStmt name ps bd) ty r =
     (let enclosingFunction = currentFunction r;
          r1 = beginScope (r\<lparr>currentFunction := ty\<rparr>);
          r2 = declareParams ps r1;
          r3 = resolveStmts bd r2;
          r4 = endScope r3
      in r4\<lparr>currentFunction := enclosingFunction\<rparr>)"
| "resolveMethods [] r = r"
| "resolveMethods (m # ms) r =
     resolveMethods ms
       (resolveFunction m (if lexeme (fname m) = ''init'' then FT_initializer else FT_method) r)"

section \<open>The evaluator (class Interpreter)\<close>

text \<open>
  The operations of the host on numbers that the evaluator uses: the arithmetic
  and the order comparisons of doubles, \<^verbatim>\<open>Number.prototype.toString\<close>, and
  \<^verbatim>\<open>Date.now()\<close> as a function of the number of earlier readings.
\<close>

record Host =
  fadd :: "number \<Rightarrow> number \<Rightarrow> number"
  fsub :: "number \<Rightarrow> number \<Rightarrow> number"
  fmul :: "number \<Rightarrow> number \<Rightarrow> number"
  fdiv :: "number \<Rightarrow> number \<Rightarrow> number"
  fneg :: "number \<Rightarrow> number"
  fless :: "number \<Rightarrow> number \<Rightarrow> bool"
  fless_equal :: "number \<Rightarrow> number \<Rightarrow> bool"
  fgreater :: "number \<Rightarrow> number \<Rightarrow> bool"
  fgreater_equal :: "number \<Rightarrow> number \<Rightarrow> bool"
  numberToString :: "number \<Rightarrow> string"
  dateNow :: "nat \<Rightarrow> number"

text \<open>Decimal digits of a natural number (for the count of arguments in a message).\<close>

fun showNat :: "nat \<Rightarrow> string" where
  "showNat n = (if n < 10 then [char_of (48 + n)] else showNat (n div 10) @ [char_of (48 + n mod 10)])"

declare showNat.simps [simp del]

definition literalValue :: "LiteralValue \<Rightarrow> Value" where
  "literalValue l =
     (case l of LitNil \<Rightarrow> VNil | LitBool b \<Rightarrow> VBool b | LitNumber x \<Rightarrow> VNumber x | LitString s \<Rightarrow> VString s)"

definition isCallable :: "Value \<Rightarrow> bool" where
  "isCallable v = (case v of VClock \<Rightarrow> True | VFunction f \<Rightarrow> True | VClass k \<Rightarrow> True | _ \<Rightarrow> False)"

text \<open>
  \<^verbatim>\<open>stringify\<close>: \<^verbatim>\<open>value.toString()\<close> by the class of the value; on \<^verbatim>\<open>undefined\<close> the
  property read throws.
\<close>

definition stringify :: "Host \<Rightarrow> Interpreter \<Rightarrow> Value \<Rightarrow> Signal + string" where
  "stringify h st v =
     (case v of
        VNil \<Rightarrow> Inr ''nil''
      | VUndefined \<Rightarrow> Inl TypeError
      | VBool b \<Rightarrow> Inr (if b then ''true'' else ''false'')
      | VString s \<Rightarrow> Inr s
      | VNumber x \<Rightarrow> Inr (if x = 0x8000000000000000 then ''-0'' else numberToString h x)
      | VClock \<Rightarrow> Inr ''<native fn>''
      | VFunction f \<Rightarrow> Inr (''<fn '' @ lexeme (fname (decl (funs st ! f))) @ ''>'')
      | VClass k \<Rightarrow> Inr (cname (classes st ! k))
      | VInstance i \<Rightarrow> Inr (cname (classes st ! klass (instances st ! i)) @ '' instance''))"

definition checkNumberOperandError :: "Token \<Rightarrow> Signal" where
  "checkNumberOperandError operator = RuntimeError operator ''Operand must be a number.''"

definition checkNumberOperandsError :: "Token \<Rightarrow> Signal" where
  "checkNumberOperandsError operator = RuntimeError operator ''Operands must be numbers.''"

text \<open>
  The \<^verbatim>\<open>switch\<close> of \<^verbatim>\<open>evaluateBinary\<close>, once both operands are evaluated. The type
  \<^verbatim>\<open>BinaryToken\<close> admits the ten operator kinds only; for any other kind the switch
  falls through and the function returns \<^verbatim>\<open>undefined\<close>.
\<close>

definition numeric :: "Token \<Rightarrow> Value \<Rightarrow> Value \<Rightarrow> (number \<Rightarrow> number \<Rightarrow> Value) \<Rightarrow> Signal + Value" where
  "numeric operator left right f =
     (case (left, right) of
        (VNumber x, VNumber y) \<Rightarrow> Inr (f x y)
      | _ \<Rightarrow> Inl (checkNumberOperandsError operator))"

definition binaryOp :: "Host \<Rightarrow> Token \<Rightarrow> Value \<Rightarrow> Value \<Rightarrow> Signal + Value" where
  "binaryOp h operator left right =
     (case ttype operator of
        T_minus \<Rightarrow> numeric operator left right (\<lambda>x y. VNumber (fsub h x y))
      | T_plus \<Rightarrow>
          (case (left, right) of
             (VNumber x, VNumber y) \<Rightarrow> Inr (VNumber (fadd h x y))
           | (VString x, VString y) \<Rightarrow> Inr (VString (x @ y))
           | _ \<Rightarrow> Inl (RuntimeError operator ''Operands must be two numbers or two strings.''))
      | T_slash \<Rightarrow> numeric operator left right (\<lambda>x y. VNumber (fdiv h x y))
      | T_star \<Rightarrow> numeric operator left right (\<lambda>x y. VNumber (fmul h x y))
      | T_greater \<Rightarrow> numeric operator left right (\<lambda>x y. VBool (fgreater h x y))
      | T_greater_equal \<Rightarrow> numeric operator left right (\<lambda>x y. VBool (fgreater_equal h x y))
      | T_less \<Rightarrow> numeric operator left right (\<lambda>x y. VBool (fless h x y))
      | T_less_equal \<Rightarrow> numeric operator left right (\<lambda>x y. VBool (fless_equal h x y))
      | T_bang_equal \<Rightarrow> Inr (VBool (\<not> isEqual left right))
      | T_equal_equal \<Rightarrow> Inr (VBool (isEqual left right))
      | _ \<Rightarrow> Inr VUndefined)"

definition unaryOp :: "Host \<Rightarrow> Token \<Rightarrow> Value \<Rightarrow> Signal + Value" where
  "unaryOp h operator right =
     (case ttype operator of
        T_minus \<Rightarrow>
          (case right of
             VNumber x \<Rightarrow> Inr (VNumber (fneg h x))
           | _ \<Rightarrow> Inl (checkNumberOperandError operator))
      | T_bang \<Rightarrow> Inr (VBool (\<not> isTruthy right))
      | _ \<Rightarrow> Inr VUndefined)"

definition lookUpVariable :: "Token \<Rightarrow> nat \<Rightarrow> Interpreter \<Rightarrow> Signal + Value" where
  "lookUpVariable name expr st =
     (case locals st expr of
        Some distance \<Rightarrow> getAt (envs st) (environment st) distance (lexeme name)
      | None \<Rightarrow> envGet (envs st) globals name)"

text \<open>The second half of \<^verbatim>\<open>evaluateAssignment\<close>, after the value is evaluated.\<close>

definition assignVariable :: "Token \<Rightarrow> nat \<Rightarrow> Value \<Rightarrow> Interpreter \<Rightarrow> (Signal + Value) \<times> Interpreter" where
  "assignVariable name expr v st =
     (case (case locals st expr of
              Some distance \<Rightarrow> assignAt (envs st) (environment st) distance name v
            | None \<Rightarrow> envAssign (envs st) globals name v) of
        Inl e \<Rightarrow> (Inl e, st)
      | Inr es \<Rightarrow> (Inr v, st\<lparr>envs := es\<rparr>))"

text \<open>
  \<^verbatim>\<open>callee.arity()\<close> for the three callables (\<^verbatim>\<open>LoxClass.arity\<close> looks for \<open>init\<close>).
\<close>

definition arity :: "Interpreter \<Rightarrow> Value \<Rightarrow> Signal + nat" where
  "arity st callee =
     (case callee of
        VFunction f \<Rightarrow> Inr (length (params (decl (funs st ! f))))
      | VClass k \<Rightarrow>
          (case findMethod (classes st) k ''init'' of
             Inl e \<Rightarrow> Inl e
           | Inr None \<Rightarrow> Inr 0
           | Inr (Some m) \<Rightarrow> Inr (length (params (decl (funs st ! m)))))
      | _ \<Rightarrow> Inr 0)"

text \<open>
  The checks of \<^verbatim>\<open>evaluateCall\<close> between the evaluation of the arguments and the call.
\<close>

definition checkCall :: "Token \<Rightarrow> Value \<Rightarrow> Value list \<Rightarrow> Interpreter \<Rightarrow> Signal option" where
  "checkCall paren callee args st =
     (if \<not> isCallable callee then Some (RuntimeError paren ''Can only call functions and classes.'')
      else (case arity st callee of
              Inl e \<Rightarrow> Some e
            | Inr n \<Rightarrow>
                if length args \<noteq> n
                then Some (RuntimeError paren
                  (''Expected '' @ showNat n @ '' arguments but got '' @ showNat (length args) @ ''.''))
                else None))"

text \<open>
  The loop of \<^verbatim>\<open>LoxFunction.call\<close> that defines the parameters; \<^verbatim>\<open>args[i]\<close> is
  \<^verbatim>\<open>undefined\<close> beyond the end of the array.
\<close>

definition defineParams :: "nat \<Rightarrow> Token list \<Rightarrow> Value list \<Rightarrow> Environment list \<Rightarrow> Environment list" where
  "defineParams e ps args es =
     fold (\<lambda>i. envDefine e (lexeme (ps ! i)) (if i < length args then args ! i else VUndefined))
       [0..<length ps] es"

definition newFunction :: "FunctionStmt \<Rightarrow> nat \<Rightarrow> bool \<Rightarrow> Interpreter \<Rightarrow> nat \<times> Interpreter" where
  "newFunction d c b st = (length (funs st), st\<lparr>funs := funs st @ [\<lparr>decl = d, closure = c, isInitializer = b\<rparr>]\<rparr>)"

text \<open>The loop over \<^verbatim>\<open>stmt.methods\<close> in the class statement.\<close>

fun buildMethods :: "FunctionStmt list \<Rightarrow> (string \<rightharpoonup> nat) \<Rightarrow> Interpreter \<Rightarrow> (string \<rightharpoonup> nat) \<times> Interpreter" where
  "buildMethods [] ms st = (ms, st)"
| "buildMethods (m # rest) ms st =
     (let (f, st1) = newFunction m (environment st) (lexeme (fname m) = ''init'') st
      in buildMethods rest (ms(lexeme (fname m) \<mapsto> f)) st1)"

text \<open>
  The class statement after the superclass is evaluated and checked: \<open>sc\<close> is the
  superclass found, \<open>None\<close> when the statement names none.
\<close>

definition defineClass :: "Token \<Rightarrow> nat option \<Rightarrow> FunctionStmt list \<Rightarrow> Interpreter \<Rightarrow> (Signal + unit) \<times> Interpreter" where
  "defineClass name sc ms st =
     (let st1 = st\<lparr>envs := envDefine (environment st) (lexeme name) VNil (envs st)\<rparr>;
          st2 = (case sc of
                   None \<Rightarrow> st1
                 | Some k \<Rightarrow>
                     (let (e, es) = newEnvironment (Some (environment st1)) (envs st1)
                      in st1\<lparr>envs := envDefine e ''super'' (VClass k) es, environment := e\<rparr>));
          (mm, st3) = buildMethods ms Map.empty st2;
          k = length (classes st3);
          st4 = st3\<lparr>classes := classes st3 @ [\<lparr>cname = lexeme name, superclass = sc, methods = mm\<rparr>]\<rparr>
      in (case (case sc of
                  None \<Rightarrow> Some (environment st4)
                | Some x \<Rightarrow> enclosing (envs st4 ! environment st4)) of
            None \<Rightarrow> (Inl TypeError, st4)
          | Some e \<Rightarrow>
              (case envAssign (envs st4) e name (VClass k) of
                 Inl err \<Rightarrow> (Inl err, st4\<lparr>environment := e\<rparr>)
               | Inr es \<Rightarrow> (Inr (), st4\<lparr>environment := e, envs := es\<rparr>))))"

text \<open>
  The evaluator proper. Every function takes the host and a fuel: a call with fuel 0
  is \<open>Timeout\<close>, and every call made by the body of a function passes the fuel less
  one, so that a run that needs deeper nesting or more loop rounds than the fuel
  allows is \<open>Timeout\<close>, and a run of the code that never returns is \<open>Timeout\<close>
  for every fuel. A result is the value returned or the exception thrown, with the
  state left behind.

  \<open>evaluateArgs\<close> is the loop of \<^verbatim>\<open>evaluateCall\<close> over the arguments, \<open>callValue\<close> is
  \<^verbatim>\<open>callee.call(this, args)\<close> for the three callables (\<^verbatim>\<open>LoxClass.call\<close> written out), \<open>fnCall\<close>
  is \<^verbatim>\<open>LoxFunction.call\<close>, \<open>executeStmts\<close> is the loop \<^verbatim>\<open>for (const statement of
  statements) this.execute(statement)\<close>.
\<close>

function (sequential) evaluate :: "Host \<Rightarrow> nat \<Rightarrow> Expr \<Rightarrow> Interpreter \<Rightarrow> (Signal + Value) \<times> Interpreter"
  and evaluateArgs :: "Host \<Rightarrow> nat \<Rightarrow> Expr list \<Rightarrow> Interpreter \<Rightarrow> (Signal + Value list) \<times> Interpreter"
  and callValue :: "Host \<Rightarrow> nat \<Rightarrow> Value \<Rightarrow> Value list \<Rightarrow> Interpreter \<Rightarrow> (Signal + Value) \<times> Interpreter"
  and fnCall :: "Host \<Rightarrow> nat \<Rightarrow> nat \<Rightarrow> Value list \<Rightarrow> Interpreter \<Rightarrow> (Signal + Value) \<times> Interpreter"
  and execute :: "Host \<Rightarrow> nat \<Rightarrow> Stmt \<Rightarrow> Interpreter \<Rightarrow> (Signal + unit) \<times> Interpreter"
  and executeStmts :: "Host \<Rightarrow> nat \<Rightarrow> Stmt list \<Rightarrow> Interpreter \<Rightarrow> (Signal + unit) \<times> Interpreter"
  and executeBlock :: "Host \<Rightarrow> nat \<Rightarrow> Stmt list \<Rightarrow> nat \<Rightarrow> Interpreter \<Rightarrow> (Signal + unit) \<times> Interpreter"
  where
  "evaluate h 0 e st = (Inl Timeout, st)"
| "evaluate h (Suc n) (AssignmentE i name value) st =
     (case evaluate h n value st of
        (Inl e, st1) \<Rightarrow> (Inl e, st1)
      | (Inr v, st1) \<Rightarrow> assignVariable name i v st1)"
| "evaluate h (Suc n) (BinaryE left operator right) st =
     (case evaluate h n left st of
        (Inl e, st1) \<Rightarrow> (Inl e, st1)
      | (Inr l, st1) \<Rightarrow>
          (case evaluate h n right st1 of
             (Inl e, st2) \<Rightarrow> (Inl e, st2)
           | (Inr r, st2) \<Rightarrow> (binaryOp h operator l r, st2)))"
| "evaluate h (Suc n) (CallE calleeExpr paren arguments) st =
     (case evaluate h n calleeExpr st of
        (Inl e, st1) \<Rightarrow> (Inl e, st1)
      | (Inr callee, st1) \<Rightarrow>
          (case evaluateArgs h n arguments st1 of
             (Inl e, st2) \<Rightarrow> (Inl e, st2)
           | (Inr args, st2) \<Rightarrow>
               (case checkCall paren callee args st2 of
                  Some e \<Rightarrow> (Inl e, st2)
                | None \<Rightarrow> callValue h n callee args st2)))"
| "evaluate h (Suc n) (GetE object name) st =
     (case evaluate h n object st of
        (Inl e, st1) \<Rightarrow> (Inl e, st1)
      | (Inr obj, st1) \<Rightarrow>
          (case obj of
             VInstance i \<Rightarrow> instanceGet i name st1
           | _ \<Rightarrow> (Inl (RuntimeError name ''Only instances have properties.''), st1)))"
| "evaluate h (Suc n) (GroupingE expression) st = evaluate h n expression st"
| "evaluate h (Suc n) (LiteralE l) st = (Inr (literalValue l), st)"
| "evaluate h (Suc n) (LogicalE left operator right) st =
     (case evaluate h n left st of
        (Inl e, st1) \<Rightarrow> (Inl e, st1)
      | (Inr l, st1) \<Rightarrow>
          if ttype operator = T_or
          then (if isTruthy l then (Inr l, st1) else evaluate h n right st1)
          else (if \<not> isTruthy l then (Inr l, st1) else evaluate h n right st1))"
| "evaluate h (Suc n) (SetE object name value) st =
     (case evaluate h n object st of
        (Inl e, st1) \<Rightarrow> (Inl e, st1)
      | (Inr obj, st1) \<Rightarrow>
          (case obj of
             VInstance i \<Rightarrow>
               (case evaluate h n value st1 of
                  (Inl e, st2) \<Rightarrow> (Inl e, st2)
                | (Inr v, st2) \<Rightarrow> (Inr v, instanceSet i name v st2))
           | _ \<Rightarrow> (Inl (RuntimeError name ''Only instances have fields.''), st1)))"
| "evaluate h (Suc n) (SuperE i keyword meth) st =
     (let distance = (case locals st i of Some d \<Rightarrow> d | None \<Rightarrow> 0) in
      case getAt (envs st) (environment st) distance ''super'' of
        Inl e \<Rightarrow> (Inl e, st)
      | Inr sc \<Rightarrow>
          (case getAt (envs st) (environment st) (distance - 1) ''this'' of
             Inl e \<Rightarrow> (Inl e, st)
           | Inr inst \<Rightarrow>
               (case sc of
                  VClass k \<Rightarrow>
                    (case findMethod (classes st) k (lexeme meth) of
                       Inl e \<Rightarrow> (Inl e, st)
                     | Inr None \<Rightarrow> (Inl (undefinedProperty meth), st)
                     | Inr (Some m) \<Rightarrow>
                         (case fnBind m inst st of
                            (Inl e, st1) \<Rightarrow> (Inl e, st1)
                          | (Inr f, st1) \<Rightarrow> (Inr (VFunction f), st1)))
                | _ \<Rightarrow> (Inl TypeError, st))))"
| "evaluate h (Suc n) (ThisE i keyword) st = (lookUpVariable keyword i st, st)"
| "evaluate h (Suc n) (UnaryE operator right) st =
     (case evaluate h n right st of
        (Inl e, st1) \<Rightarrow> (Inl e, st1)
      | (Inr r, st1) \<Rightarrow> (unaryOp h operator r, st1))"
| "evaluate h (Suc n) (VariableE i name) st = (lookUpVariable name i st, st)"
| "evaluateArgs h 0 es st = (Inl Timeout, st)"
| "evaluateArgs h (Suc n) [] st = (Inr [], st)"
| "evaluateArgs h (Suc n) (a # as) st =
     (case evaluate h n a st of
        (Inl e, st1) \<Rightarrow> (Inl e, st1)
      | (Inr v, st1) \<Rightarrow>
          (case evaluateArgs h n as st1 of
             (Inl e, st2) \<Rightarrow> (Inl e, st2)
           | (Inr vs, st2) \<Rightarrow> (Inr (v # vs), st2)))"
| "callValue h 0 callee args st = (Inl Timeout, st)"
| "callValue h (Suc n) callee args st =
     (case callee of
        VClock \<Rightarrow> (Inr (VNumber (dateNow h (clockReads st))), st\<lparr>clockReads := clockReads st + 1\<rparr>)
      | VFunction f \<Rightarrow> fnCall h n f args st
      | VClass k \<Rightarrow>
          (let instance = length (instances st);
               st1 = st\<lparr>instances := instances st @ [\<lparr>klass = k, fieldMap = Map.empty\<rparr>]\<rparr>
           in case findMethod (classes st1) k ''init'' of
                Inl e \<Rightarrow> (Inl e, st1)
              | Inr None \<Rightarrow> (Inr (VInstance instance), st1)
              | Inr (Some initializer) \<Rightarrow>
                  (case fnBind initializer (VInstance instance) st1 of
                     (Inl e, st2) \<Rightarrow> (Inl e, st2)
                   | (Inr f, st2) \<Rightarrow>
                       (case fnCall h n f args st2 of
                          (Inl e, st3) \<Rightarrow> (Inl e, st3)
                        | (Inr v, st3) \<Rightarrow> (Inr (VInstance instance), st3))))
      | _ \<Rightarrow> (Inl TypeError, st))"
| "fnCall h 0 f args st = (Inl Timeout, st)"
| "fnCall h (Suc n) f args st =
     (case funAt st f of
        None \<Rightarrow> (Inl TypeError, st)
      | Some fn \<Rightarrow>
          (let (environ, es) = newEnvironment (Some (closure fn)) (envs st);
               st1 = st\<lparr>envs := defineParams environ (params (decl fn)) args es\<rparr>
           in case executeBlock h n (body (decl fn)) environ st1 of
                (Inl (Return v), st2) \<Rightarrow>
                  if isInitializer fn then (getAt (envs st2) (closure fn) 0 ''this'', st2)
                  else (Inr v, st2)
              | (Inl e, st2) \<Rightarrow> (Inl e, st2)
              | (Inr u, st2) \<Rightarrow>
                  if isInitializer fn then (getAt (envs st2) (closure fn) 0 ''this'', st2)
                  else (Inr VNil, st2)))"
| "execute h 0 s st = (Inl Timeout, st)"
| "execute h (Suc n) (BlockS statements) st =
     (let (e, es) = newEnvironment (Some (environment st)) (envs st)
      in executeBlock h n statements e (st\<lparr>envs := es\<rparr>))"
| "execute h (Suc n) (ClassS name sc ms) st =
     (case sc of
        None \<Rightarrow> defineClass name None ms st
      | Some (i, sname) \<Rightarrow>
          (case evaluate h n (VariableE i sname) st of
             (Inl e, st1) \<Rightarrow> (Inl e, st1)
           | (Inr s, st1) \<Rightarrow>
               (case s of
                  VClass k \<Rightarrow> defineClass name (Some k) ms st1
                | _ \<Rightarrow> (Inl (RuntimeError sname ''Superclass must be a class.''), st1))))"
| "execute h (Suc n) (ExpressionS expression) st =
     (case evaluate h n expression st of
        (Inl e, st1) \<Rightarrow> (Inl e, st1)
      | (Inr v, st1) \<Rightarrow> (Inr (), st1))"
| "execute h (Suc n) (FunctionS fn) st =
     (let (f, st1) = newFunction fn (environment st) False st
      in (Inr (), st1\<lparr>envs := envDefine (environment st1) (lexeme (fname fn)) (VFunction f) (envs st1)\<rparr>))"
| "execute h (Suc n) (IfS condition thenBranch elseBranch) st =
     (case evaluate h n condition st of
        (Inl e, st1) \<Rightarrow> (Inl e, st1)
      | (Inr c, st1) \<Rightarrow>
          if isTruthy c then execute h n thenBranch st1
          else (case elseBranch of
                  Some el \<Rightarrow> execute h n el st1
                | None \<Rightarrow> (Inr (), st1)))"
| "execute h (Suc n) (PrintS expression) st =
     (case evaluate h n expression st of
        (Inl e, st1) \<Rightarrow> (Inl e, st1)
      | (Inr v, st1) \<Rightarrow>
          (case stringify h st1 v of
             Inl e \<Rightarrow> (Inl e, st1)
           | Inr s \<Rightarrow> (Inr (), st1\<lparr>stdout := stdout st1 @ [s]\<rparr>)))"
| "execute h (Suc n) (ReturnS keyword value) st =
     (case value of
        None \<Rightarrow> (Inl (Return VNil), st)
      | Some e \<Rightarrow>
          (case evaluate h n e st of
             (Inl err, st1) \<Rightarrow> (Inl err, st1)
           | (Inr v, st1) \<Rightarrow> (Inl (Return v), st1)))"
| "execute h (Suc n) (VarS name initializer) st =
     (case initializer of
        None \<Rightarrow> (Inr (), st\<lparr>envs := envDefine (environment st) (lexeme name) VNil (envs st)\<rparr>)
      | Some e \<Rightarrow>
          (case evaluate h n e st of
             (Inl err, st1) \<Rightarrow> (Inl err, st1)
           | (Inr v, st1) \<Rightarrow>
               (Inr (), st1\<lparr>envs := envDefine (environment st1) (lexeme name) v (envs st1)\<rparr>)))"
| "execute h (Suc n) (WhileS condition bd) st =
     (case evaluate h n condition st of
        (Inl e, st1) \<Rightarrow> (Inl e, st1)
      | (Inr c, st1) \<Rightarrow>
          if isTruthy c
          then (case execute h n bd st1 of
                  (Inl e, st2) \<Rightarrow> (Inl e, st2)
                | (Inr u, st2) \<Rightarrow> execute h n (WhileS condition bd) st2)
          else (Inr (), st1))"
| "executeStmts h 0 ss st = (Inl Timeout, st)"
| "executeStmts h (Suc n) [] st = (Inr (), st)"
| "executeStmts h (Suc n) (s # ss) st =
     (case execute h n s st of
        (Inl e, st1) \<Rightarrow> (Inl e, st1)
      | (Inr u, st1) \<Rightarrow> executeStmts h n ss st1)"
| "executeBlock h 0 statements environ st = (Inl Timeout, st)"
| "executeBlock h (Suc n) statements environ st =
     (let previous = environment st;
          (r, st1) = executeStmts h n statements (st\<lparr>environment := environ\<rparr>)
      in (r, st1\<lparr>environment := previous\<rparr>))"
  by pat_completeness auto

termination
  by (relation "measure
        (case_sum
          (case_sum (\<lambda>(h, n, r). n) (case_sum (\<lambda>(h, n, r). n) (\<lambda>(h, n, r). n)))
          (case_sum (case_sum (\<lambda>(h, n, r). n) (\<lambda>(h, n, r). n))
                    (case_sum (\<lambda>(h, n, r). n) (\<lambda>(h, n, r). n))))")
    simp_all

section \<open>The parser (class Parser)\<close>

text \<open>
  A parser method either returns a value or throws; on both ways out the fields of
  the parser keep the changes made so far. Three things can be thrown: the parser's
  own \<^verbatim>\<open>ParseError\<close>, the \<^verbatim>\<open>TypeError\<close> that JavaScript raises when a property of
  \<^verbatim>\<open>undefined\<close> is read (a token index outside the array), and, in this model only,
  \<open>OutOfFuel\<close>: the recursive-descent methods take a bound on the depth of calls and
  stop with it when the bound is used up.
\<close>

datatype ParseSignal = ParseError | HostTypeError | OutOfFuel

text \<open>
  The fields \<^verbatim>\<open>tokens\<close> and \<^verbatim>\<open>current\<close>, the reports made through \<^verbatim>\<open>error\<close>, and the
  identity that the next key node (variable, assignment, this, super) will get.
\<close>

record Parser =
  tokensP :: "Token list"
  currentP :: nat
  nextId :: nat
  reportsP :: "Report list"

type_synonym 'a parsed = "(ParseSignal + 'a) \<times> Parser"

definition newParser :: "Token list \<Rightarrow> Parser" where
  "newParser ts = \<lparr>tokensP = ts, currentP = 0, nextId = 0, reportsP = []\<rparr>"

text \<open>Sequencing: the second step runs when the first has returned, on the state it left.\<close>

definition thenP :: "'a parsed \<Rightarrow> ('a \<Rightarrow> Parser \<Rightarrow> 'b parsed) \<Rightarrow> 'b parsed" where
  "thenP r f = (case r of (Inl e, p) \<Rightarrow> (Inl e, p) | (Inr x, p) \<Rightarrow> f x p)"

lemma thenP_cong [fundef_cong]:
  "r = r' \<Longrightarrow> (\<And>x p. r' = (Inr x, p) \<Longrightarrow> f x p = f' x p) \<Longrightarrow> thenP r f = thenP r' f'"
  by (auto simp: thenP_def split: prod.splits sum.splits)

text \<open>\<^verbatim>\<open>tokens[i]\<close>: \<^verbatim>\<open>undefined\<close> outside the array.\<close>

definition tokenAt :: "Token list \<Rightarrow> nat \<Rightarrow> Token option" where
  "tokenAt ts i = (if i < length ts then Some (ts ! i) else None)"

definition peekP :: "Parser \<Rightarrow> Token option" where
  "peekP p = tokenAt (tokensP p) (currentP p)"

definition previousP :: "Parser \<Rightarrow> Token option" where
  "previousP p = (if currentP p = 0 then None else tokenAt (tokensP p) (currentP p - 1))"

definition isAtEndP :: "Parser \<Rightarrow> bool parsed" where
  "isAtEndP p =
     (case peekP p of
        None \<Rightarrow> (Inl HostTypeError, p)
      | Some t \<Rightarrow> (Inr (ttype t = T_eof), p))"

definition checkP :: "TokenType \<Rightarrow> Parser \<Rightarrow> bool parsed" where
  "checkP ty p =
     thenP (isAtEndP p) (\<lambda>atEnd p1.
       if atEnd then (Inr False, p1)
       else (case peekP p1 of
               None \<Rightarrow> (Inl HostTypeError, p1)
             | Some t \<Rightarrow> (Inr (ttype t = ty), p1)))"

definition advanceP :: "Parser \<Rightarrow> Token option parsed" where
  "advanceP p =
     thenP (isAtEndP p) (\<lambda>atEnd p1.
       let p2 = (if atEnd then p1 else p1\<lparr>currentP := currentP p1 + 1\<rparr>)
       in (Inr (previousP p2), p2))"

primrec matchP :: "TokenType list \<Rightarrow> Parser \<Rightarrow> bool parsed" where
  "matchP [] p = (Inr False, p)"
| "matchP (ty # types) p =
     thenP (checkP ty p) (\<lambda>found p1.
       if found then thenP (advanceP p1) (\<lambda>t p2. (Inr True, p2))
       else matchP types p1)"

text \<open>
  \<^verbatim>\<open>Parser.error\<close> reports and returns a \<^verbatim>\<open>ParseError\<close> for the caller to throw or to drop;
  \<^verbatim>\<open>error\<close> of run.ts reads \<^verbatim>\<open>token.type\<close>, which is the \<^verbatim>\<open>TypeError\<close> when the token is
  \<^verbatim>\<open>undefined\<close>.
\<close>

definition errorP :: "Token option \<Rightarrow> string \<Rightarrow> Parser \<Rightarrow> unit parsed" where
  "errorP token message p =
     (case token of
        None \<Rightarrow> (Inl HostTypeError, p)
      | Some t \<Rightarrow> (Inr (), p\<lparr>reportsP := reportsP p @ [errorAtToken t message]\<rparr>))"

text \<open>
  \<^verbatim>\<open>consume\<close> returns what \<^verbatim>\<open>advance\<close> returns. After a successful \<^verbatim>\<open>check\<close> that is a
  token (lemma \<open>consume_advances\<close> below), so the branch for \<^verbatim>\<open>undefined\<close> is never taken.
\<close>

definition consume :: "TokenType \<Rightarrow> string \<Rightarrow> Parser \<Rightarrow> Token parsed" where
  "consume ty message p =
     thenP (checkP ty p) (\<lambda>found p1.
       if found then
         thenP (advanceP p1) (\<lambda>t p2.
           case t of None \<Rightarrow> (Inl HostTypeError, p2) | Some token \<Rightarrow> (Inr token, p2))
       else thenP (errorP (peekP p1) message p1) (\<lambda>u p2. (Inl ParseError, p2)))"

text \<open>
  The token that \<^verbatim>\<open>previous()\<close> returns where the code uses it as a token: right after a
  successful \<^verbatim>\<open>match\<close> it is the token matched (lemma \<open>matchP_previous\<close> below).
\<close>

definition previousToken :: "Parser \<Rightarrow> Token parsed" where
  "previousToken p =
     (case previousP p of None \<Rightarrow> (Inl HostTypeError, p) | Some t \<Rightarrow> (Inr t, p))"

lemma isAtEndP_frame:
  "isAtEndP p = (Inr b, p1) \<Longrightarrow> p1 = p \<and> currentP p < length (tokensP p)"
  by (auto simp: isAtEndP_def peekP_def tokenAt_def split: option.splits if_splits)

lemma advanceP_frame:
  "advanceP p = (Inr t, p1) \<Longrightarrow>
     tokensP p1 = tokensP p \<and> currentP p \<le> currentP p1 \<and> currentP p1 \<le> Suc (currentP p)
     \<and> currentP p < length (tokensP p)"
  by (auto simp: advanceP_def thenP_def Let_def dest!: isAtEndP_frame
      split: prod.splits sum.splits if_splits)

text \<open>
  \<^verbatim>\<open>synchronize\<close>: the loop ends because \<^verbatim>\<open>advance\<close> moves on whenever the parser is not at
  the end.
\<close>

definition isStatementStart :: "TokenType \<Rightarrow> bool" where
  "isStatementStart ty =
     (ty = T_class \<or> ty = T_fun \<or> ty = T_var \<or> ty = T_for \<or> ty = T_if \<or> ty = T_while
      \<or> ty = T_print \<or> ty = T_return)"

function synchronizeLoop :: "Parser \<Rightarrow> unit parsed" where
  "synchronizeLoop p =
     thenP (isAtEndP p) (\<lambda>atEnd p1.
       if atEnd then (Inr (), p1)
       else (case previousP p1 of
               None \<Rightarrow> (Inl HostTypeError, p1)
             | Some prev \<Rightarrow>
                 if ttype prev = T_semicolon then (Inr (), p1)
                 else (case peekP p1 of
                         None \<Rightarrow> (Inl HostTypeError, p1)
                       | Some t \<Rightarrow>
                           if isStatementStart (ttype t) then (Inr (), p1)
                           else thenP (advanceP p1) (\<lambda>u p2. synchronizeLoop p2))))"
  by pat_completeness auto

termination
proof (relation "measure (\<lambda>p. length (tokensP p) - currentP p)")
  show "wf (measure (\<lambda>p. length (tokensP p) - currentP p))"
    by simp
next
  fix p :: Parser and atEnd p1 prev t u p2
  assume a: "isAtEndP p = (Inr atEnd, p1)" "\<not> atEnd" "advanceP p1 = (Inr u, p2)"
  from a(1) have 1: "p1 = p" "currentP p < length (tokensP p)"
    by (auto dest: isAtEndP_frame)
  from a have "currentP p2 = Suc (currentP p) \<and> tokensP p2 = tokensP p"
    unfolding 1(1)
    by (auto simp: advanceP_def thenP_def Let_def split: prod.splits sum.splits if_splits)
  with 1 show "(p2, p) \<in> measure (\<lambda>p. length (tokensP p) - currentP p)"
    by simp
qed

declare synchronizeLoop.simps [simp del]

definition synchronize :: "Parser \<Rightarrow> unit parsed" where
  "synchronize p = thenP (advanceP p) (\<lambda>u p1. synchronizeLoop p1)"

text \<open>
  The recursive-descent methods. The first argument bounds the depth of calls; every
  call, and every turn of a loop, uses one. A \<^verbatim>\<open>while\<close> loop of a method is the function
  named after it with \<open>Loop\<close>; it takes the variable that the loop updates. A key node
  takes the identity \<open>nextId\<close> when it is created.
\<close>

definition freshVariable :: "Token \<Rightarrow> Parser \<Rightarrow> Expr parsed" where
  "freshVariable name p = (Inr (VariableE (nextId p) name), p\<lparr>nextId := nextId p + 1\<rparr>)"

text \<open>
  A \<^verbatim>\<open>number\<close> or \<^verbatim>\<open>string\<close> token carries its literal (\<^verbatim>\<open>Scanner.number\<close>,
  \<^verbatim>\<open>Scanner.string\<close>); the model stops on a token of these kinds that carries none.
\<close>

definition literalOf :: "Token \<Rightarrow> Parser \<Rightarrow> Expr parsed" where
  "literalOf t p =
     (case literal t of
        NumberLiteral x \<Rightarrow> (Inr (LiteralE (LitNumber x)), p)
      | StringLiteral s \<Rightarrow> (Inr (LiteralE (LitString s)), p)
      | NoLiteral \<Rightarrow> (Inl HostTypeError, p))"

function (sequential)
    declarationP :: "nat \<Rightarrow> Parser \<Rightarrow> Stmt option parsed"
and classDeclaration :: "nat \<Rightarrow> Parser \<Rightarrow> Stmt parsed"
and methodsLoop :: "nat \<Rightarrow> FunctionStmt list \<Rightarrow> Parser \<Rightarrow> FunctionStmt list parsed"
and funcDeclaration :: "nat \<Rightarrow> string \<Rightarrow> Parser \<Rightarrow> FunctionStmt parsed"
and paramsLoop :: "nat \<Rightarrow> Token list \<Rightarrow> Parser \<Rightarrow> Token list parsed"
and varDeclaration :: "nat \<Rightarrow> Parser \<Rightarrow> Stmt parsed"
and statement :: "nat \<Rightarrow> Parser \<Rightarrow> Stmt parsed"
and returnStatement :: "nat \<Rightarrow> Parser \<Rightarrow> Stmt parsed"
and block :: "nat \<Rightarrow> Parser \<Rightarrow> Stmt list parsed"
and blockLoop :: "nat \<Rightarrow> Stmt list \<Rightarrow> Parser \<Rightarrow> Stmt list parsed"
and forStatement :: "nat \<Rightarrow> Parser \<Rightarrow> Stmt parsed"
and ifStatement :: "nat \<Rightarrow> Parser \<Rightarrow> Stmt parsed"
and whileStatement :: "nat \<Rightarrow> Parser \<Rightarrow> Stmt parsed"
and printStatement :: "nat \<Rightarrow> Parser \<Rightarrow> Stmt parsed"
and expressionStatement :: "nat \<Rightarrow> Parser \<Rightarrow> Stmt parsed"
and expression :: "nat \<Rightarrow> Parser \<Rightarrow> Expr parsed"
and assignment :: "nat \<Rightarrow> Parser \<Rightarrow> Expr parsed"
and orExpr :: "nat \<Rightarrow> Parser \<Rightarrow> Expr parsed"
and orLoop :: "nat \<Rightarrow> Expr \<Rightarrow> Parser \<Rightarrow> Expr parsed"
and andExpr :: "nat \<Rightarrow> Parser \<Rightarrow> Expr parsed"
and andLoop :: "nat \<Rightarrow> Expr \<Rightarrow> Parser \<Rightarrow> Expr parsed"
and equality :: "nat \<Rightarrow> Parser \<Rightarrow> Expr parsed"
and equalityLoop :: "nat \<Rightarrow> Expr \<Rightarrow> Parser \<Rightarrow> Expr parsed"
and comparison :: "nat \<Rightarrow> Parser \<Rightarrow> Expr parsed"
and comparisonLoop :: "nat \<Rightarrow> Expr \<Rightarrow> Parser \<Rightarrow> Expr parsed"
and termExpr :: "nat \<Rightarrow> Parser \<Rightarrow> Expr parsed"
and termLoop :: "nat \<Rightarrow> Expr \<Rightarrow> Parser \<Rightarrow> Expr parsed"
and factor :: "nat \<Rightarrow> Parser \<Rightarrow> Expr parsed"
and factorLoop :: "nat \<Rightarrow> Expr \<Rightarrow> Parser \<Rightarrow> Expr parsed"
and unary :: "nat \<Rightarrow> Parser \<Rightarrow> Expr parsed"
and call :: "nat \<Rightarrow> Parser \<Rightarrow> Expr parsed"
and callLoop :: "nat \<Rightarrow> Expr \<Rightarrow> Parser \<Rightarrow> Expr parsed"
and finishCall :: "nat \<Rightarrow> Expr \<Rightarrow> Parser \<Rightarrow> Expr parsed"
and argumentsLoop :: "nat \<Rightarrow> Expr list \<Rightarrow> Parser \<Rightarrow> Expr list parsed"
and primary :: "nat \<Rightarrow> Parser \<Rightarrow> Expr parsed"
where
  "declarationP 0 p = (Inl OutOfFuel, p)"
| "declarationP (Suc n) p =
     (case thenP (matchP [T_class] p) (\<lambda>isClass p1.
             if isClass then classDeclaration n p1
             else thenP (matchP [T_fun] p1) (\<lambda>isFun p2.
               if isFun then
                 thenP (funcDeclaration n ''function'' p2) (\<lambda>f p3. (Inr (FunctionS f), p3))
               else thenP (matchP [T_var] p2) (\<lambda>isVar p3.
                 if isVar then varDeclaration n p3 else statement n p3))) of
        (Inr s, p1) \<Rightarrow> (Inr (Some s), p1)
      | (Inl ParseError, p1) \<Rightarrow> thenP (synchronize p1) (\<lambda>u p2. (Inr None, p2))
      | (Inl e, p1) \<Rightarrow> (Inl e, p1))"

| "classDeclaration 0 p = (Inl OutOfFuel, p)"
| "classDeclaration (Suc n) p =
     thenP (consume T_identifier ''Expect class name.'' p) (\<lambda>name p1.
     thenP (thenP (matchP [T_less] p1) (\<lambda>hasSuper p2.
              if hasSuper then
                thenP (consume T_identifier ''Expect superclass name.'' p2) (\<lambda>t p3.
                thenP (previousToken p3) (\<lambda>prev p4.
                  (Inr (Some (nextId p4, prev)), p4\<lparr>nextId := nextId p4 + 1\<rparr>)))
              else (Inr None, p2))) (\<lambda>superclass p2.
     thenP (consume T_left_brace ''Expect '{' before class body.'' p2) (\<lambda>t p3.
     thenP (methodsLoop n [] p3) (\<lambda>methods p4.
     thenP (consume T_right_brace ''Expect '}' after class body.'' p4) (\<lambda>t p5.
       (Inr (ClassS name superclass methods), p5))))))"

| "methodsLoop 0 methodList p = (Inl OutOfFuel, p)"
| "methodsLoop (Suc n) methodList p =
     thenP (checkP T_right_brace p) (\<lambda>closing p1.
       if closing then (Inr methodList, p1)
       else thenP (isAtEndP p1) (\<lambda>atEnd p2.
         if atEnd then (Inr methodList, p2)
         else thenP (funcDeclaration n ''method'' p2) (\<lambda>f p3.
           methodsLoop n (methodList @ [f]) p3)))"

| "funcDeclaration 0 kind p = (Inl OutOfFuel, p)"
| "funcDeclaration (Suc n) kind p =
     thenP (consume T_identifier (''Expect '' @ kind @ '' name.'') p) (\<lambda>name p1.
     thenP (consume T_left_paren (''Expect '(' after '' @ kind @ '' name.'') p1) (\<lambda>t p2.
     thenP (thenP (checkP T_right_paren p2) (\<lambda>closing p3.
              if \<not> closing then paramsLoop n [] p3 else (Inr [], p3))) (\<lambda>params p3.
     thenP (consume T_right_paren ''Expect ')' after parameters.'' p3) (\<lambda>t p4.
     thenP (consume T_left_brace (''Expect '{' before '' @ kind @ '' body.'') p4) (\<lambda>t p5.
     thenP (block n p5) (\<lambda>body p6.
       (Inr (FunctionStmt name params body), p6)))))))"

| "paramsLoop 0 paramList p = (Inl OutOfFuel, p)"
| "paramsLoop (Suc n) paramList p =
     thenP (if length paramList \<ge> 255
            then errorP (peekP p) ''Can't have more than 255 parameters.'' p
            else (Inr (), p)) (\<lambda>u p1.
     thenP (consume T_identifier ''Expect parameter name.'' p1) (\<lambda>param p2.
     thenP (matchP [T_comma] p2) (\<lambda>more p3.
       if more then paramsLoop n (paramList @ [param]) p3
       else (Inr (paramList @ [param]), p3))))"

| "varDeclaration 0 p = (Inl OutOfFuel, p)"
| "varDeclaration (Suc n) p =
     thenP (consume T_identifier ''Expect variable name.'' p) (\<lambda>name p1.
     thenP (thenP (matchP [T_equal] p1) (\<lambda>hasInit p2.
              if hasInit then thenP (expression n p2) (\<lambda>e p3. (Inr (Some e), p3))
              else (Inr None, p2))) (\<lambda>initializer p2.
     thenP (consume T_semicolon ''Expect ';' after variable declaration.'' p2) (\<lambda>t p3.
       (Inr (VarS name initializer), p3))))"

| "statement 0 p = (Inl OutOfFuel, p)"
| "statement (Suc n) p =
     thenP (matchP [T_for] p) (\<lambda>isFor p1.
       if isFor then forStatement n p1
       else thenP (matchP [T_if] p1) (\<lambda>isIf p2.
         if isIf then ifStatement n p2
         else thenP (matchP [T_print] p2) (\<lambda>isPrint p3.
           if isPrint then printStatement n p3
           else thenP (matchP [T_return] p3) (\<lambda>isReturn p4.
             if isReturn then returnStatement n p4
             else thenP (matchP [T_while] p4) (\<lambda>isWhile p5.
               if isWhile then whileStatement n p5
               else thenP (matchP [T_left_brace] p5) (\<lambda>isBlock p6.
                 if isBlock then thenP (block n p6) (\<lambda>statements p7. (Inr (BlockS statements), p7))
                 else expressionStatement n p6))))))"

| "returnStatement 0 p = (Inl OutOfFuel, p)"
| "returnStatement (Suc n) p =
     thenP (previousToken p) (\<lambda>keyword p1.
     thenP (thenP (checkP T_semicolon p1) (\<lambda>closing p2.
              if \<not> closing then thenP (expression n p2) (\<lambda>e p3. (Inr (Some e), p3))
              else (Inr None, p2))) (\<lambda>result p2.
     thenP (consume T_semicolon ''Expect ';' after return value.'' p2) (\<lambda>t p3.
       (Inr (ReturnS keyword result), p3))))"

| "block 0 p = (Inl OutOfFuel, p)"
| "block (Suc n) p =
     thenP (blockLoop n [] p) (\<lambda>statements p1.
     thenP (consume T_right_brace ''Expect '}' after block.'' p1) (\<lambda>t p2.
       (Inr statements, p2)))"

| "blockLoop 0 statements p = (Inl OutOfFuel, p)"
| "blockLoop (Suc n) statements p =
     thenP (checkP T_right_brace p) (\<lambda>closing p1.
       if closing then (Inr statements, p1)
       else thenP (isAtEndP p1) (\<lambda>atEnd p2.
         if atEnd then (Inr statements, p2)
         else thenP (declarationP n p2) (\<lambda>d p3.
           blockLoop n (case d of None \<Rightarrow> statements | Some s \<Rightarrow> statements @ [s]) p3)))"

| "forStatement 0 p = (Inl OutOfFuel, p)"
| "forStatement (Suc n) p =
     thenP (consume T_left_paren ''Expect '(' after 'for'.'' p) (\<lambda>t p1.
     thenP (thenP (matchP [T_semicolon] p1) (\<lambda>isEmpty p2.
              if isEmpty then (Inr None, p2)
              else thenP (matchP [T_var] p2) (\<lambda>isVar p3.
                if isVar then thenP (varDeclaration n p3) (\<lambda>s p4. (Inr (Some s), p4))
                else thenP (expressionStatement n p3) (\<lambda>s p4. (Inr (Some s), p4))))) (\<lambda>initializer p2.
     thenP (thenP (checkP T_semicolon p2) (\<lambda>closing p3.
              if \<not> closing then thenP (expression n p3) (\<lambda>e p4. (Inr (Some e), p4))
              else (Inr None, p3))) (\<lambda>condition p3.
     thenP (consume T_semicolon ''Expect ';' after loop condition.'' p3) (\<lambda>t p4.
     thenP (thenP (checkP T_right_paren p4) (\<lambda>closing p5.
              if \<not> closing then thenP (expression n p5) (\<lambda>e p6. (Inr (Some e), p6))
              else (Inr None, p5))) (\<lambda>increment p5.
     thenP (consume T_right_paren ''Expect ')' after for clauses.'' p5) (\<lambda>t p6.
     thenP (statement n p6) (\<lambda>body p7.
       let body = (case increment of
                     Some i \<Rightarrow> BlockS [body, ExpressionS i]
                   | None \<Rightarrow> body);
           condition = (case condition of
                          None \<Rightarrow> LiteralE (LitBool True)
                        | Some c \<Rightarrow> c);
           body = WhileS condition body;
           body = (case initializer of
                     Some i \<Rightarrow> BlockS [i, body]
                   | None \<Rightarrow> body)
       in (Inr body, p7))))))))"

| "ifStatement 0 p = (Inl OutOfFuel, p)"
| "ifStatement (Suc n) p =
     thenP (consume T_left_paren ''Expect '(' after 'if'.'' p) (\<lambda>t p1.
     thenP (expression n p1) (\<lambda>condition p2.
     thenP (consume T_right_paren ''Expect ')' after if condition.'' p2) (\<lambda>t p3.
     thenP (statement n p3) (\<lambda>thenBranch p4.
     thenP (thenP (matchP [T_else] p4) (\<lambda>hasElse p5.
              if hasElse then thenP (statement n p5) (\<lambda>s p6. (Inr (Some s), p6))
              else (Inr None, p5))) (\<lambda>elseBranch p5.
       (Inr (IfS condition thenBranch elseBranch), p5))))))"

| "whileStatement 0 p = (Inl OutOfFuel, p)"
| "whileStatement (Suc n) p =
     thenP (consume T_left_paren ''Expect '(' after 'while'.'' p) (\<lambda>t p1.
     thenP (expression n p1) (\<lambda>condition p2.
     thenP (consume T_right_paren ''Expect ')' after condition.'' p2) (\<lambda>t p3.
     thenP (statement n p3) (\<lambda>body p4.
       (Inr (WhileS condition body), p4)))))"

| "printStatement 0 p = (Inl OutOfFuel, p)"
| "printStatement (Suc n) p =
     thenP (expression n p) (\<lambda>e p1.
     thenP (consume T_semicolon ''Expect ';' after value.'' p1) (\<lambda>t p2.
       (Inr (PrintS e), p2)))"

| "expressionStatement 0 p = (Inl OutOfFuel, p)"
| "expressionStatement (Suc n) p =
     thenP (expression n p) (\<lambda>e p1.
     thenP (consume T_semicolon ''Expect ';' after expression.'' p1) (\<lambda>t p2.
       (Inr (ExpressionS e), p2)))"

| "expression 0 p = (Inl OutOfFuel, p)"
| "expression (Suc n) p = assignment n p"

| "assignment 0 p = (Inl OutOfFuel, p)"
| "assignment (Suc n) p =
     thenP (orExpr n p) (\<lambda>expr p1.
     thenP (matchP [T_equal] p1) (\<lambda>isAssign p2.
       if isAssign then
         (let equals = previousP p2 in
          thenP (assignment n p2) (\<lambda>rhs p3.
            case expr of
              VariableE i name \<Rightarrow>
                (Inr (AssignmentE (nextId p3) name rhs), p3\<lparr>nextId := nextId p3 + 1\<rparr>)
            | GetE object name \<Rightarrow> (Inr (SetE object name rhs), p3)
            | _ \<Rightarrow>
                thenP (errorP equals ''Invalid assignment target.'' p3) (\<lambda>u p4.
                  (Inr expr, p4))))
       else (Inr expr, p2)))"

| "orExpr 0 p = (Inl OutOfFuel, p)"
| "orExpr (Suc n) p = thenP (andExpr n p) (\<lambda>expr p1. orLoop n expr p1)"

| "orLoop 0 expr p = (Inl OutOfFuel, p)"
| "orLoop (Suc n) expr p =
     thenP (matchP [T_or] p) (\<lambda>found p1.
       if found then
         thenP (previousToken p1) (\<lambda>operator p2.
         thenP (andExpr n p2) (\<lambda>right p3.
           orLoop n (LogicalE expr operator right) p3))
       else (Inr expr, p1))"

| "andExpr 0 p = (Inl OutOfFuel, p)"
| "andExpr (Suc n) p = thenP (equality n p) (\<lambda>expr p1. andLoop n expr p1)"

| "andLoop 0 expr p = (Inl OutOfFuel, p)"
| "andLoop (Suc n) expr p =
     thenP (matchP [T_and] p) (\<lambda>found p1.
       if found then
         thenP (previousToken p1) (\<lambda>operator p2.
         thenP (equality n p2) (\<lambda>right p3.
           andLoop n (LogicalE expr operator right) p3))
       else (Inr expr, p1))"

| "equality 0 p = (Inl OutOfFuel, p)"
| "equality (Suc n) p = thenP (comparison n p) (\<lambda>expr p1. equalityLoop n expr p1)"

| "equalityLoop 0 expr p = (Inl OutOfFuel, p)"
| "equalityLoop (Suc n) expr p =
     thenP (matchP [T_bang_equal, T_equal_equal] p) (\<lambda>found p1.
       if found then
         thenP (previousToken p1) (\<lambda>operator p2.
         thenP (comparison n p2) (\<lambda>right p3.
           equalityLoop n (BinaryE expr operator right) p3))
       else (Inr expr, p1))"

| "comparison 0 p = (Inl OutOfFuel, p)"
| "comparison (Suc n) p = thenP (termExpr n p) (\<lambda>expr p1. comparisonLoop n expr p1)"

| "comparisonLoop 0 expr p = (Inl OutOfFuel, p)"
| "comparisonLoop (Suc n) expr p =
     thenP (matchP [T_greater, T_greater_equal, T_less, T_less_equal] p) (\<lambda>found p1.
       if found then
         thenP (previousToken p1) (\<lambda>operator p2.
         thenP (termExpr n p2) (\<lambda>right p3.
           comparisonLoop n (BinaryE expr operator right) p3))
       else (Inr expr, p1))"

| "termExpr 0 p = (Inl OutOfFuel, p)"
| "termExpr (Suc n) p = thenP (factor n p) (\<lambda>expr p1. termLoop n expr p1)"

| "termLoop 0 expr p = (Inl OutOfFuel, p)"
| "termLoop (Suc n) expr p =
     thenP (matchP [T_minus, T_plus] p) (\<lambda>found p1.
       if found then
         thenP (previousToken p1) (\<lambda>operator p2.
         thenP (factor n p2) (\<lambda>right p3.
           termLoop n (BinaryE expr operator right) p3))
       else (Inr expr, p1))"

| "factor 0 p = (Inl OutOfFuel, p)"
| "factor (Suc n) p = thenP (unary n p) (\<lambda>expr p1. factorLoop n expr p1)"

| "factorLoop 0 expr p = (Inl OutOfFuel, p)"
| "factorLoop (Suc n) expr p =
     thenP (matchP [T_slash, T_star] p) (\<lambda>found p1.
       if found then
         thenP (previousToken p1) (\<lambda>operator p2.
         thenP (unary n p2) (\<lambda>right p3.
           factorLoop n (BinaryE expr operator right) p3))
       else (Inr expr, p1))"

| "unary 0 p = (Inl OutOfFuel, p)"
| "unary (Suc n) p =
     thenP (matchP [T_bang, T_minus] p) (\<lambda>found p1.
       if found then
         thenP (previousToken p1) (\<lambda>operator p2.
         thenP (unary n p2) (\<lambda>right p3.
           (Inr (UnaryE operator right), p3)))
       else call n p1)"

| "call 0 p = (Inl OutOfFuel, p)"
| "call (Suc n) p = thenP (primary n p) (\<lambda>expr p1. callLoop n expr p1)"

| "callLoop 0 expr p = (Inl OutOfFuel, p)"
| "callLoop (Suc n) expr p =
     thenP (matchP [T_left_paren] p) (\<lambda>isCall p1.
       if isCall then thenP (finishCall n expr p1) (\<lambda>expr1 p2. callLoop n expr1 p2)
       else thenP (matchP [T_dot] p1) (\<lambda>isGet p2.
         if isGet then
           thenP (consume T_identifier ''Expect property name after '.'.'' p2) (\<lambda>name p3.
             callLoop n (GetE expr name) p3)
         else (Inr expr, p2)))"

| "finishCall 0 callee p = (Inl OutOfFuel, p)"
| "finishCall (Suc n) callee p =
     thenP (thenP (checkP T_right_paren p) (\<lambda>closing p1.
              if \<not> closing then argumentsLoop n [] p1 else (Inr [], p1))) (\<lambda>args p1.
     thenP (consume T_right_paren ''Expect ')' after arguments.'' p1) (\<lambda>paren p2.
       (Inr (CallE callee paren args), p2)))"

| "argumentsLoop 0 args p = (Inl OutOfFuel, p)"
| "argumentsLoop (Suc n) args p =
     thenP (if length args \<ge> 255
            then errorP (peekP p) ''Can't have more than 255 arguments.'' p
            else (Inr (), p)) (\<lambda>u p1.
     thenP (expression n p1) (\<lambda>arg p2.
     thenP (matchP [T_comma] p2) (\<lambda>more p3.
       if more then argumentsLoop n (args @ [arg]) p3
       else (Inr (args @ [arg]), p3))))"

| "primary 0 p = (Inl OutOfFuel, p)"
| "primary (Suc n) p =
     thenP (matchP [T_false] p) (\<lambda>isFalse p1.
       if isFalse then (Inr (LiteralE (LitBool False)), p1)
       else thenP (matchP [T_true] p1) (\<lambda>isTrue p2.
         if isTrue then (Inr (LiteralE (LitBool True)), p2)
         else thenP (matchP [T_nil] p2) (\<lambda>isNil p3.
           if isNil then (Inr (LiteralE LitNil), p3)
           else thenP (matchP [T_number, T_string] p3) (\<lambda>isLiteral p4.
             if isLiteral then thenP (previousToken p4) (\<lambda>t p5. literalOf t p5)
             else thenP (matchP [T_super] p4) (\<lambda>isSuper p5.
               if isSuper then
                 thenP (previousToken p5) (\<lambda>keyword p6.
                 thenP (consume T_dot ''Expect '.' after 'super'.'' p6) (\<lambda>t p7.
                 thenP (consume T_identifier ''Expect superclass method name.'' p7) (\<lambda>name p8.
                   (Inr (SuperE (nextId p8) keyword name), p8\<lparr>nextId := nextId p8 + 1\<rparr>))))
               else thenP (matchP [T_this] p5) (\<lambda>isThis p6.
                 if isThis then
                   thenP (previousToken p6) (\<lambda>keyword p7.
                     (Inr (ThisE (nextId p7) keyword), p7\<lparr>nextId := nextId p7 + 1\<rparr>))
                 else thenP (matchP [T_identifier] p6) (\<lambda>isName p7.
                   if isName then thenP (previousToken p7) (\<lambda>name p8. freshVariable name p8)
                   else thenP (matchP [T_left_paren] p7) (\<lambda>isGroup p8.
                     if isGroup then
                       thenP (expression n p8) (\<lambda>e p9.
                       thenP (consume T_right_paren ''Expect ')' after expression.'' p9) (\<lambda>t p10.
                         (Inr (GroupingE e), p10)))
                     else thenP (errorP (peekP p8) ''Expect expression.'' p8) (\<lambda>u p9.
                       (Inl ParseError, p9))))))))))"
  by pat_completeness auto

termination
  by (relation "measure
    (case_sum (case_sum (case_sum (case_sum (case_sum (\<lambda>(n, p). n) (\<lambda>(n, p). n)) (case_sum (\<lambda>(n, x, p). n) (\<lambda>(n, x, p). n))) (case_sum (case_sum (\<lambda>(n, x, p). n) (\<lambda>(n, p). n)) (case_sum (\<lambda>(n, p). n) (\<lambda>(n, p). n)))) (case_sum (case_sum (case_sum (\<lambda>(n, p). n) (\<lambda>(n, x, p). n)) (case_sum (\<lambda>(n, p). n) (\<lambda>(n, p). n))) (case_sum (case_sum (\<lambda>(n, p). n) (\<lambda>(n, p). n)) (case_sum (\<lambda>(n, p). n) (case_sum (\<lambda>(n, p). n) (\<lambda>(n, p). n)))))) (case_sum (case_sum (case_sum (case_sum (\<lambda>(n, p). n) (\<lambda>(n, x, p). n)) (case_sum (\<lambda>(n, p). n) (\<lambda>(n, x, p). n))) (case_sum (case_sum (\<lambda>(n, p). n) (\<lambda>(n, x, p). n)) (case_sum (\<lambda>(n, p). n) (case_sum (\<lambda>(n, x, p). n) (\<lambda>(n, p). n))))) (case_sum (case_sum (case_sum (\<lambda>(n, x, p). n) (\<lambda>(n, p). n)) (case_sum (\<lambda>(n, x, p). n) (\<lambda>(n, p). n))) (case_sum (case_sum (\<lambda>(n, p). n) (\<lambda>(n, x, p). n)) (case_sum (\<lambda>(n, x, p). n) (case_sum (\<lambda>(n, x, p). n) (\<lambda>(n, p). n)))))))") simp_all

text \<open>\<^verbatim>\<open>parse\<close>: declarations until the end of the tokens.\<close>

fun parseLoop :: "nat \<Rightarrow> Stmt list \<Rightarrow> Parser \<Rightarrow> Stmt list parsed" where
  "parseLoop 0 statements p = (Inl OutOfFuel, p)"
| "parseLoop (Suc n) statements p =
     thenP (isAtEndP p) (\<lambda>atEnd p1.
       if atEnd then (Inr statements, p1)
       else thenP (declarationP n p1) (\<lambda>d p2.
         parseLoop n (case d of None \<Rightarrow> statements | Some s \<Rightarrow> statements @ [s]) p2))"

definition parse :: "nat \<Rightarrow> Token list \<Rightarrow> Stmt list parsed" where
  "parse n ts = parseLoop n [] (newParser ts)"

subsection \<open>The shape of a for statement, as the specification words it\<close>


section \<open>Example states and programs\<close>

text \<open>
  A state after \<^verbatim>\<open>class A { m() {} } class B < A {} var b = B(); b.x = true;\<close> in outline:
  class 0 is \<open>A\<close> with the method \<open>m\<close> (function 0), class 1 is \<open>B\<close> with superclass
  \<open>A\<close> and no method of its own, instance 0 is a \<open>B\<close> with the field \<open>x\<close>.
\<close>

definition exampleObjects :: Interpreter where
  "exampleObjects =
     newInterpreter
       \<lparr>funs := [\<lparr>decl = FunctionStmt (Token T_identifier ''m'' NoLiteral 1) [] [],
                  closure = 0, isInitializer = False\<rparr>],
        classes := [\<lparr>cname = ''A'', superclass = None, methods = [''m'' \<mapsto> 0]\<rparr>,
                    \<lparr>cname = ''B'', superclass = Some 0, methods = Map.empty\<rparr>],
        instances := [\<lparr>klass = 1, fieldMap = [''x'' \<mapsto> VBool True]\<rparr>]\<rparr>"

text \<open>
  A resolver inside three scopes: the outermost declares \<open>a\<close>, the middle one \<open>a\<close> and
  \<open>b\<close>, the innermost nothing.
\<close>

definition exampleResolver :: Resolver where
  "exampleResolver =
     (newResolver newInterpreter)
       \<lparr>scopes := [[''a'' \<mapsto> True], [''a'' \<mapsto> True, ''b'' \<mapsto> True], Map.empty]\<rparr>"

text \<open>
  A host for the examples, none of which computes with numbers: every operation on
  numbers is constant.
\<close>

definition exampleHost :: Host where
  "exampleHost =
     \<lparr>fadd = (\<lambda>x y. 0), fsub = (\<lambda>x y. 0), fmul = (\<lambda>x y. 0), fdiv = (\<lambda>x y. 0), fneg = (\<lambda>x. 0),
      fless = (\<lambda>x y. False), fless_equal = (\<lambda>x y. False), fgreater = (\<lambda>x y. False),
      fgreater_equal = (\<lambda>x y. False), numberToString = (\<lambda>x. ''0''), dateNow = (\<lambda>n. 0)\<rparr>"

text \<open>The state after \<^verbatim>\<open>class A {}\<close>, run from the initial state.\<close>

definition exampleClassA :: Interpreter where
  "exampleClassA =
     snd (execute exampleHost 2 (ClassS (Token T_identifier ''A'' NoLiteral 1) None []) newInterpreter)"


section \<open>Environment.getAt\<close>

lemma ancestorLoop_not_RuntimeError: "ancestorLoop es env k \<noteq> Inl (RuntimeError t msg)"
  by (induction k arbitrary: env) (auto split: option.splits)

lemma enclosing_vals_update:
  "enclosing ((es[c := (es ! c)\<lparr>vals := m\<rparr>]) ! a) = enclosing (es ! a)"
  by (cases "c < length es"; cases "a = c") (simp_all add: list_update_beyond)

lemma ancestorLoop_vals_update:
  "ancestorLoop (es[c := (es ! c)\<lparr>vals := m\<rparr>]) env k = ancestorLoop es env k"
proof (induction k arbitrary: env)
  case 0
  show ?case by simp
next
  case (Suc k)
  show ?case
  proof (cases env)
    case None
    then show ?thesis by simp
  next
    case (Some a)
    with Suc show ?thesis by (simp add: enclosing_vals_update)
  qed
qed

text \<open>
  Claim C9. \<^verbatim>\<open>getAt(d, name)\<close> never raises a \<open>RuntimeError\<close> (so never
  "Undefined variable", which \<^verbatim>\<open>get\<close> raises). When the chain has a frame \<open>b\<close> exactly
  \<open>d\<close> links up, the result is what \<^verbatim>\<open>Map.get\<close> gives on that frame alone: the stored
  value, or \<^verbatim>\<open>undefined\<close> when the name is absent there, returned as if it were a
  value; the bindings of every other frame are irrelevant (overwriting the map of
  a frame \<open>c \<noteq> b\<close> changes nothing). The result is \<^verbatim>\<open>undefined\<close> exactly when frame
  \<open>b\<close> has no binding for the name (or holds \<^verbatim>\<open>undefined\<close> itself), so it is excluded
  exactly when the binding is present at depth \<open>d\<close>.
\<close>

theorem getAt_reads_one_frame:
  "getAt es a d name \<noteq> Inl (RuntimeError t msg)
   \<and> (ancestor es a d = Inr (Some b) \<longrightarrow>
        getAt es a d name = Inr (mapGet (vals (es ! b)) name)
        \<and> (vals (es ! b) name = None \<longrightarrow> getAt es a d name = Inr VUndefined)
        \<and> (getAt es a d name = Inr VUndefined \<longleftrightarrow>
             (vals (es ! b) name = None \<or> vals (es ! b) name = Some VUndefined))
        \<and> (\<forall>c m. c \<noteq> b \<longrightarrow>
             getAt (es[c := (es ! c)\<lparr>vals := m\<rparr>]) a d name = getAt es a d name))"
proof -
  have A: "getAt es a d name \<noteq> Inl (RuntimeError t msg)"
    using ancestorLoop_not_RuntimeError [of es "Some a" d t msg]
    by (auto simp: getAt_def ancestor_def split: sum.splits option.splits)
  have B: "getAt (es[c := (es ! c)\<lparr>vals := m\<rparr>]) a d name = getAt es a d name"
    if "ancestor es a d = Inr (Some b)" "c \<noteq> b" for c m
  proof -
    have "vals ((es[c := (es ! c)\<lparr>vals := m\<rparr>]) ! b) = vals (es ! b)"
      using that(2) by (cases "c < length es") (simp_all add: list_update_beyond)
    then show ?thesis
      using that(1) by (simp add: getAt_def ancestor_def ancestorLoop_vals_update)
  qed
  show ?thesis
    using A B by (auto simp: getAt_def mapGet_def split: option.splits)
qed

text \<open>
  A chain of two frames: the global frame binds \<open>a\<close>, the inner frame binds nothing.
  \<^verbatim>\<open>getAt(1, "a")\<close> reads the global frame; \<^verbatim>\<open>getAt(0, "a")\<close> yields \<^verbatim>\<open>undefined\<close> although
  \<^verbatim>\<open>get\<close> finds \<open>a\<close>; for a name bound nowhere \<^verbatim>\<open>get\<close> raises and \<^verbatim>\<open>getAt\<close> does not; a
  distance beyond the chain is the host's \<open>TypeError\<close>.
\<close>

theorem getAt_reads_one_frame_witness:
  "ancestor [\<lparr>enclosing = None, vals = [''a'' \<mapsto> VNil]\<rparr>, \<lparr>enclosing = Some 0, vals = Map.empty\<rparr>] 1 1
     = Inr (Some 0)
   \<and> getAt [\<lparr>enclosing = None, vals = [''a'' \<mapsto> VNil]\<rparr>, \<lparr>enclosing = Some 0, vals = Map.empty\<rparr>] 1 1 ''a''
     = Inr VNil
   \<and> getAt [\<lparr>enclosing = None, vals = [''a'' \<mapsto> VNil]\<rparr>, \<lparr>enclosing = Some 0, vals = Map.empty\<rparr>] 1 0 ''a''
     = Inr VUndefined
   \<and> envGet [\<lparr>enclosing = None, vals = [''a'' \<mapsto> VNil]\<rparr>, \<lparr>enclosing = Some 0, vals = Map.empty\<rparr>] 1
        (Token T_identifier ''a'' NoLiteral 1) = Inr VNil
   \<and> envGet [\<lparr>enclosing = None, vals = [''a'' \<mapsto> VNil]\<rparr>, \<lparr>enclosing = Some 0, vals = Map.empty\<rparr>] 1
        (Token T_identifier ''b'' NoLiteral 1)
     = Inl (RuntimeError (Token T_identifier ''b'' NoLiteral 1) ''Undefined variable 'b'.'')
   \<and> getAt [\<lparr>enclosing = None, vals = [''a'' \<mapsto> VNil]\<rparr>, \<lparr>enclosing = Some 0, vals = Map.empty\<rparr>] 1 1 ''b''
     = Inr VUndefined
   \<and> getAt [\<lparr>enclosing = None, vals = [''a'' \<mapsto> VNil]\<rparr>, \<lparr>enclosing = Some 0, vals = Map.empty\<rparr>] 1 2 ''a''
     = Inl TypeError"
proof -
  let ?E = "[\<lparr>enclosing = None, vals = [''a'' \<mapsto> VNil]\<rparr>, \<lparr>enclosing = Some 0, vals = Map.empty\<rparr>]"
  have h: "ancestor ?E 1 1 = Inr (Some 0)"
    by (simp add: ancestor_def)
  have h0: "ancestor ?E 1 0 = Inr (Some 1)"
    by (simp add: ancestor_def)
  have "getAt ?E 1 1 ''a'' = Inr (mapGet (vals (?E ! 0)) ''a'')"
    using getAt_reads_one_frame [of ?E 1 1 "''a''" _ _ 0] h by blast
  moreover have "getAt ?E 1 0 ''a'' = Inr (mapGet (vals (?E ! 1)) ''a'')"
    using getAt_reads_one_frame [of ?E 1 0 "''a''" _ _ 1] h0 by blast
  moreover have "getAt ?E 1 1 ''b'' = Inr (mapGet (vals (?E ! 0)) ''b'')"
    using getAt_reads_one_frame [of ?E 1 1 "''b''" _ _ 0] h by blast
  moreover have "getAt ?E 1 2 ''a'' = Inl TypeError"
    by (simp add: getAt_def ancestor_def numeral_2_eq_2)
  ultimately show ?thesis
    using h by (simp add: mapGet_def envGet.simps)
qed

section \<open>Property lookup\<close>

text \<open>
  Claim C3. \<^verbatim>\<open>LoxInstance.get\<close> looks in the instance's own fields first: a field that
  holds a value is returned and nothing else is consulted or changed, even when the
  class has a method of that name. Only when the field map gives \<^verbatim>\<open>undefined\<close> is
  \<^verbatim>\<open>findMethod\<close> consulted: a method found there (a function of the store) is returned
  as a function object that
  did not exist before, with the method's declaration and initializer flag and a
  new closure frame that encloses the method's closure and binds only \<open>this\<close>, to the
  instance; when no method is found the lookup raises "Undefined property 'name'.".
  \<^verbatim>\<open>findMethod\<close> returns the class's own entry when it has one, and otherwise is the
  search of the superclass (none found when there is no superclass).
\<close>

theorem instanceGet_fields_then_methods:
  "(mapGet (fieldMap (instances st ! i)) (lexeme name) \<noteq> VUndefined \<longrightarrow>
      instanceGet i name st = (Inr (mapGet (fieldMap (instances st ! i)) (lexeme name)), st))
   \<and> (mapGet (fieldMap (instances st ! i)) (lexeme name) = VUndefined \<longrightarrow>
        findMethod (classes st) (klass (instances st ! i)) (lexeme name) = Inr (Some m) \<longrightarrow>
        m < length (funs st) \<longrightarrow>
        (\<exists>st1. instanceGet i name st = (Inr (VFunction (length (funs st))), st1)
           \<and> funs st1 = funs st @ [\<lparr>decl = decl (funs st ! m), closure = length (envs st),
                                     isInitializer = isInitializer (funs st ! m)\<rparr>]
           \<and> envs st1 = envs st @ [\<lparr>enclosing = Some (closure (funs st ! m)),
                                     vals = [''this'' \<mapsto> VInstance i]\<rparr>]
           \<and> instances st1 = instances st \<and> classes st1 = classes st))
   \<and> (mapGet (fieldMap (instances st ! i)) (lexeme name) = VUndefined \<longrightarrow>
        findMethod (classes st) (klass (instances st ! i)) (lexeme name) = Inr None \<longrightarrow>
        instanceGet i name st =
          (Inl (RuntimeError name (''Undefined property '' @ [CHR 0x27] @ lexeme name @ [CHR 0x27] @ ''.'')), st))
   \<and> (methods (cs ! k) n = Some m \<longrightarrow> findMethod cs k n = Inr (Some m))
   \<and> (methods (cs ! k) n = None \<longrightarrow> superclass (cs ! k) = Some s \<longrightarrow> s < k \<longrightarrow>
        findMethod cs k n = findMethod cs s n)
   \<and> (methods (cs ! k) n = None \<longrightarrow> superclass (cs ! k) = None \<longrightarrow> findMethod cs k n = Inr None)"
proof -
  have 1: "methods (cs ! k) n = Some m \<Longrightarrow> findMethod cs k n = Inr (Some m)"
    by (subst findMethod.simps) simp
  have 2: "methods (cs ! k) n = None \<Longrightarrow> superclass (cs ! k) = Some s \<Longrightarrow> s < k \<Longrightarrow>
      findMethod cs k n = findMethod cs s n"
    by (subst findMethod.simps) simp
  have 3: "methods (cs ! k) n = None \<Longrightarrow> superclass (cs ! k) = None \<Longrightarrow>
      findMethod cs k n = Inr None"
    by (subst findMethod.simps) simp
  show ?thesis
    using 1 2 3
    by (simp add: instanceGet_def fnBind_def funAt_def newEnvironment_def envDefine_def
        undefinedProperty_def Let_def)
qed

theorem instanceGet_fields_then_methods_witness:
  "instanceGet 0 (Token T_identifier ''x'' NoLiteral 1) exampleObjects = (Inr (VBool True), exampleObjects)
   \<and> findMethod (classes exampleObjects) 1 ''m'' = Inr (Some 0)
   \<and> fst (instanceGet 0 (Token T_identifier ''m'' NoLiteral 1) exampleObjects) = Inr (VFunction 1)
   \<and> envs (snd (instanceGet 0 (Token T_identifier ''m'' NoLiteral 1) exampleObjects)) ! 1
       = \<lparr>enclosing = Some 0, vals = [''this'' \<mapsto> VInstance 0]\<rparr>
   \<and> instanceGet 0 (Token T_identifier ''y'' NoLiteral 1) exampleObjects
       = (Inl (RuntimeError (Token T_identifier ''y'' NoLiteral 1) ''Undefined property 'y'.''), exampleObjects)"
proof -
  let ?x = "Token T_identifier ''x'' NoLiteral 1"
  let ?m = "Token T_identifier ''m'' NoLiteral 1"
  let ?y = "Token T_identifier ''y'' NoLiteral 1"
  have fx: "mapGet (fieldMap (instances exampleObjects ! 0)) (lexeme ?x) = VBool True"
    and fm: "mapGet (fieldMap (instances exampleObjects ! 0)) (lexeme ?m) = VUndefined"
    and fy: "mapGet (fieldMap (instances exampleObjects ! 0)) (lexeme ?y) = VUndefined"
    by (simp_all add: exampleObjects_def newInterpreter_def mapGet_def)
  have k: "klass (instances exampleObjects ! 0) = 1"
    by (simp add: exampleObjects_def newInterpreter_def)
  have cm: "findMethod (classes exampleObjects) 1 ''m'' = Inr (Some 0)"
    and cy: "findMethod (classes exampleObjects) 1 ''y'' = Inr None"
    by (simp_all add: exampleObjects_def newInterpreter_def findMethod.simps)
  have 1: "instanceGet 0 ?x exampleObjects = (Inr (VBool True), exampleObjects)"
    using instanceGet_fields_then_methods [where st = exampleObjects and i = 0 and name = ?x and m = 0
        and cs = "[]" and k = 0 and n = "[]" and s = 0] fx by simp
  obtain st1 where 2: "instanceGet 0 ?m exampleObjects = (Inr (VFunction (length (funs exampleObjects))), st1)"
    and 3: "envs st1 = envs exampleObjects @ [\<lparr>enclosing = Some (closure (funs exampleObjects ! 0)),
                                     vals = [''this'' \<mapsto> VInstance 0]\<rparr>]"
    using instanceGet_fields_then_methods [where st = exampleObjects and i = 0 and name = ?m and m = 0
        and cs = "[]" and k = 0 and n = "[]" and s = 0] fm cm k
    by (auto simp: exampleObjects_def newInterpreter_def)
  have 4: "instanceGet 0 ?y exampleObjects
       = (Inl (RuntimeError ?y ''Undefined property 'y'.''), exampleObjects)"
    using instanceGet_fields_then_methods [where st = exampleObjects and i = 0 and name = ?y and m = 0
        and cs = "[]" and k = 0 and n = "[]" and s = 0] fy cy k by simp
  have 5: "length (funs exampleObjects) = 1" "length (envs exampleObjects) = 1"
      "closure (funs exampleObjects ! 0) = 0"
    by (simp_all add: exampleObjects_def newInterpreter_def)
  show ?thesis
    using 1 2 3 4 5 cm by (simp add: nth_append)
qed

section \<open>Unterminated strings\<close>

lemma stringLoop_no_quote:
  "current s \<le> length (source s) \<Longrightarrow> CHR 0x22 \<notin> set (drop (current s) (source s)) \<Longrightarrow>
   stringLoop s =
     s\<lparr>current := length (source s),
       lineNo := lineNo s + count_list (drop (current s) (source s)) (CHR 0x0A)\<rparr>"
proof (induction s rule: stringLoop.induct)
  case (1 s)
  show ?case
  proof (cases "isAtEnd s")
    case True
    then have "stringLoop s = s"
      by (subst stringLoop.simps) simp
    moreover have "current s = length (source s)"
      using True "1.prems"(1) by (simp add: isAtEnd_def)
    ultimately show ?thesis by simp
  next
    case False
    then have lt: "current s < length (source s)"
      by (simp add: isAtEnd_def)
    then have d: "drop (current s) (source s) = source s ! current s # drop (Suc (current s)) (source s)"
      by (simp add: Cons_nth_drop_Suc)
    have pk: "peek s = source s ! current s"
      using False by (simp add: peek_def)
    have nq: "peek s \<noteq> CHR 0x22"
      using "1.prems"(2) d pk by auto
    let ?t = "snd (advance (if peek s = CHR 0x0A then s\<lparr>lineNo := lineNo s + 1\<rparr> else s))"
    have step: "stringLoop s = stringLoop ?t"
      using nq False by (subst stringLoop.simps) simp
    have t: "source ?t = source s" "current ?t = Suc (current s)"
      "lineNo ?t = lineNo s + (if peek s = CHR 0x0A then 1 else 0)"
      by (simp_all add: advance_def)
    have "stringLoop ?t =
        ?t\<lparr>current := length (source ?t),
           lineNo := lineNo ?t + count_list (drop (current ?t) (source ?t)) (CHR 0x0A)\<rparr>"
    proof (rule "1.IH")
      show "peek s \<noteq> CHR 0x22 \<and> \<not> isAtEnd s"
        using nq False by simp
      show "current ?t \<le> length (source ?t)"
        using lt t by simp
      show "CHR 0x22 \<notin> set (drop (current ?t) (source ?t))"
        using "1.prems"(2) d t by auto
    qed
    then show ?thesis
      using step d pk by (auto simp: advance_def)
  qed
qed

text \<open>
  Claim C7, as the code has it. When the scanner stands on an opening quote and no
  closing quote follows, \<^verbatim>\<open>scanToken\<close> consumes the rest of the input, adds no token,
  and reports "Unterminated string." once, at the value of the line counter at the
  end of input: the line of the opening quote plus the number of newlines after it.
  The reported line is the line of the opening quote only when no newline follows.
\<close>

theorem unterminated_string_reported_at_last_line:
  assumes "current s < length (source s)"
    and "source s ! current s = CHR 0x22"
    and "CHR 0x22 \<notin> set (drop (Suc (current s)) (source s))"
  shows "scanToken pf s =
     s\<lparr>current := length (source s),
       lineNo := lineNo s + count_list (drop (Suc (current s)) (source s)) (CHR 0x0A),
       reports := reports s @
         [(lineNo s + count_list (drop (Suc (current s)) (source s)) (CHR 0x0A), [],
           ''Unterminated string.'')]\<rparr>"
proof -
  let ?s1 = "s\<lparr>current := current s + 1\<rparr>"
  have adv: "advance s = (Some (CHR 0x22), ?s1)"
    using assms(1,2) by (simp add: advance_def charAt_def)
  have sw: "scanSwitch pf (Some (CHR 0x22)) ?s1 = scanString ?s1"
    by (simp add: scanSwitch_def)
  have loop: "stringLoop ?s1 =
      ?s1\<lparr>current := length (source ?s1),
          lineNo := lineNo ?s1 + count_list (drop (current ?s1) (source ?s1)) (CHR 0x0A)\<rparr>"
    by (rule stringLoop_no_quote) (use assms in simp_all)
  show ?thesis
    unfolding scanToken_def adv prod.case Let_def sw scanString_def loop
    by (simp add: isAtEnd_def scanError_def errorAtLine_def)
qed

text \<open>
  The source \<^verbatim>\<open>"a\<close>, newline, \<^verbatim>\<open>b\<close>: the opening quote is the first character, on
  line 1, and the text after it holds one newline. The report is at line 2, and the
  only token is the \<^verbatim>\<open>eof\<close> token.
\<close>

theorem unterminated_string_reported_at_last_line_witness:
  "scanToken (\<lambda>t. 0) (newScanner [CHR 0x22, CHR ''a'', CHR 0x0A, CHR ''b'']) =
     (newScanner [CHR 0x22, CHR ''a'', CHR 0x0A, CHR ''b''])
       \<lparr>current := 4, lineNo := 2, reports := [(2, [], ''Unterminated string.'')]\<rparr>"
  using unterminated_string_reported_at_last_line
    [of "newScanner [CHR 0x22, CHR ''a'', CHR 0x0A, CHR ''b'']" "\<lambda>t. 0"]
  by (simp add: newScanner_def)

theorem unterminated_string_line_counterexample:
  "reports (scanTokens (\<lambda>t. 0) [CHR 0x22, CHR ''a'', CHR 0x0A, CHR ''b''])
     = [(2, [], ''Unterminated string.'')]
   \<and> reports (scanTokens (\<lambda>t. 0) [CHR 0x22, CHR ''a'', CHR 0x0A, CHR ''b''])
     \<noteq> [(1, [], ''Unterminated string.'')]
   \<and> tokens (scanTokens (\<lambda>t. 0) [CHR 0x22, CHR ''a'', CHR 0x0A, CHR ''b''])
     = [Token T_eof [] NoLiteral 2]"
proof -
  let ?src = "[CHR 0x22, CHR ''a'', CHR 0x0A, CHR ''b'']"
  let ?s0 = "\<lparr>source = ?src, tokens = [], start = 0, current = 0, lineNo = 1, reports = []\<rparr>"
  let ?s1 = "\<lparr>source = ?src, tokens = [], start = 0, current = 4, lineNo = 2,
             reports = [(2, [], ''Unterminated string.'')]\<rparr>"
  have tok: "scanToken (\<lambda>t. 0) ?s0 = ?s1"
    by (simp add: scanToken_def advance_def charAt_def scanSwitch_def scanString_def
        stringLoop.simps peek_def isAtEnd_def scanError_def errorAtLine_def)
  have "scanLoop (\<lambda>t. 0) ?s0 = scanLoop (\<lambda>t. 0) (scanToken (\<lambda>t. 0) ?s0)"
    by (subst scanLoop.simps) (simp add: isAtEnd_def)
  also have "\<dots> = scanLoop (\<lambda>t. 0) ?s1"
    by (simp only: tok)
  also have "\<dots> = ?s1"
    by (subst scanLoop.simps) (simp add: isAtEnd_def)
  finally show ?thesis
    by (simp add: scanTokens_def newScanner_def)
qed

section \<open>Resolution of local variables\<close>

lemma resolveLocalLoop_miss:
  "(\<forall>j<k. (scopes r ! j) (lexeme name) = None) \<Longrightarrow> resolveLocalLoop e name k r = r"
  by (induction k) simp_all

lemma resolveLocalLoop_hit:
  "i < k \<Longrightarrow> (scopes r ! i) (lexeme name) \<noteq> None \<Longrightarrow>
   (\<forall>j. i < j \<and> j < k \<longrightarrow> (scopes r ! j) (lexeme name) = None) \<Longrightarrow>
   resolveLocalLoop e name k r =
     r\<lparr>interpreter := resolve e (length (scopes r) - 1 - i) (interpreter r)\<rparr>"
proof (induction k)
  case 0
  then show ?case by simp
next
  case (Suc k)
  show ?case
  proof (cases "i = k")
    case True
    with Suc.prems show ?thesis by simp
  next
    case False
    with Suc.prems have "i < k" by simp
    moreover have "(scopes r ! k) (lexeme name) = None"
      using Suc.prems \<open>i < k\<close> by simp
    ultimately show ?thesis
      using Suc by simp
  qed
qed

lemma resolveLocal_scopes [simp]:
  "scopes (resolveLocal e name r) = scopes r"
  "currentClass (resolveLocal e name r) = currentClass r"
  "currentFunction (resolveLocal e name r) = currentFunction r"
  "rerrors (resolveLocal e name r) = rerrors r"
proof -
  have "scopes (resolveLocalLoop e name k r) = scopes r
      \<and> currentClass (resolveLocalLoop e name k r) = currentClass r
      \<and> currentFunction (resolveLocalLoop e name k r) = currentFunction r
      \<and> rerrors (resolveLocalLoop e name k r) = rerrors r" for k
    by (induction k) simp_all
  then show "scopes (resolveLocal e name r) = scopes r"
    "currentClass (resolveLocal e name r) = currentClass r"
    "currentFunction (resolveLocal e name r) = currentFunction r"
    "rerrors (resolveLocal e name r) = rerrors r"
    by (simp_all add: resolveLocal_def)
qed

lemma reportError_fields [simp]:
  "scopes (reportError t m r) = scopes r"
  "interpreter (reportError t m r) = interpreter r"
  "currentClass (reportError t m r) = currentClass r"
  "currentFunction (reportError t m r) = currentFunction r"
  by (simp_all add: reportError_def)

lemma resolveExpr_scopes:
  "scopes (resolveExpr e r) = scopes r \<and> currentClass (resolveExpr e r) = currentClass r
   \<and> currentFunction (resolveExpr e r) = currentFunction r"
  "scopes (resolveExprs es r) = scopes r \<and> currentClass (resolveExprs es r) = currentClass r
   \<and> currentFunction (resolveExprs es r) = currentFunction r"
  by (induction e r and es r rule: resolveExpr_resolveExprs.induct) simp_all

text \<open>
  Claim C4. \<^verbatim>\<open>resolveLocal\<close> walks the scopes from the innermost (the last of the
  array) outward. If scope \<open>i\<close> is the first on that walk to contain the name, the
  only change is that the side-table maps the expression to
  \<open>scopes.length - 1 - i\<close>; if no scope contains the name, nothing changes. The
  four kinds of expression reach it as follows: a variable and \<open>super\<close> always (after
  at most a report, which changes neither the scopes nor the table); an assignment
  after its value is resolved, which leaves the scopes as they were; \<open>this\<close> inside a
  class. For \<open>this\<close> outside any class the resolver reports the error and writes no
  entry without walking the scopes.
\<close>

theorem resolveLocal_records_depth:
  "(i < length (scopes r) \<longrightarrow> (scopes r ! i) (lexeme name) \<noteq> None \<longrightarrow>
      (\<forall>j. i < j \<and> j < length (scopes r) \<longrightarrow> (scopes r ! j) (lexeme name) = None) \<longrightarrow>
      resolveLocal e name r =
        r\<lparr>interpreter := (interpreter r)
             \<lparr>locals := (locals (interpreter r))(e \<mapsto> length (scopes r) - 1 - i)\<rparr>\<rparr>)
   \<and> ((\<forall>j<length (scopes r). (scopes r ! j) (lexeme name) = None) \<longrightarrow>
        resolveLocal e name r = r)
   \<and> (\<exists>r1. scopes r1 = scopes r \<and> interpreter r1 = interpreter r
         \<and> resolveExpr (VariableE e name) r = resolveLocal e name r1)
   \<and> resolveExpr (AssignmentE e name v) r = resolveLocal e name (resolveExpr v r)
   \<and> scopes (resolveExpr v r) = scopes r
   \<and> (\<exists>r1. scopes r1 = scopes r \<and> interpreter r1 = interpreter r
         \<and> resolveExpr (SuperE e name m) r = resolveLocal e name r1)
   \<and> (currentClass r \<noteq> CT_none \<longrightarrow> resolveExpr (ThisE e name) r = resolveLocal e name r)
   \<and> (currentClass r = CT_none \<longrightarrow> interpreter (resolveExpr (ThisE e name) r) = interpreter r)"
proof -
  have hit: "resolveLocal e name r =
        r\<lparr>interpreter := (interpreter r)
             \<lparr>locals := (locals (interpreter r))(e \<mapsto> length (scopes r) - 1 - i)\<rparr>\<rparr>"
    if "i < length (scopes r)" "(scopes r ! i) (lexeme name) \<noteq> None"
      "\<forall>j. i < j \<and> j < length (scopes r) \<longrightarrow> (scopes r ! j) (lexeme name) = None"
    using resolveLocalLoop_hit [OF that] by (simp add: resolveLocal_def resolve_def)
  have miss: "resolveLocal e name r = r"
    if "\<forall>j<length (scopes r). (scopes r ! j) (lexeme name) = None"
    using resolveLocalLoop_miss [OF that] by (simp add: resolveLocal_def)
  have var: "\<exists>r1. scopes r1 = scopes r \<and> interpreter r1 = interpreter r
         \<and> resolveExpr (VariableE e name) r = resolveLocal e name r1"
    by (cases "length (scopes r) > 0 \<and> last (scopes r) (lexeme name) = Some False")
      (auto intro: exI [of _ r]
        exI [of _ "reportError name ''Can't read local variable in its own initializer.'' r"])
  have sup: "\<exists>r1. scopes r1 = scopes r \<and> interpreter r1 = interpreter r
         \<and> resolveExpr (SuperE e name m) r = resolveLocal e name r1"
    by (cases "currentClass r")
      (auto intro: exI [of _ r]
        exI [of _ "reportError name ''Can't use 'super' outside of a class.'' r"]
        exI [of _ "reportError name ''Can't use 'super' in a class with no superclass.'' r"])
  show ?thesis
    using hit miss var sup resolveExpr_scopes(1) [of v r] by simp
qed

theorem resolveLocal_records_depth_witness:
  "resolveLocal 7 (Token T_identifier ''a'' NoLiteral 1) exampleResolver =
     exampleResolver\<lparr>interpreter := newInterpreter\<lparr>locals := [7 \<mapsto> 1]\<rparr>\<rparr>
   \<and> resolveLocal 7 (Token T_identifier ''c'' NoLiteral 1) exampleResolver = exampleResolver
   \<and> resolveExpr (ThisE 7 (Token T_this ''this'' NoLiteral 1)) (exampleResolver\<lparr>currentClass := CT_class\<rparr>)
       = exampleResolver\<lparr>currentClass := CT_class\<rparr>"
proof -
  let ?a = "Token T_identifier ''a'' NoLiteral 1"
  let ?c = "Token T_identifier ''c'' NoLiteral 1"
  let ?t = "Token T_this ''this'' NoLiteral 1"
  let ?rc = "exampleResolver\<lparr>currentClass := CT_class\<rparr>"
  have sc: "scopes exampleResolver = [[''a'' \<mapsto> True], [''a'' \<mapsto> True, ''b'' \<mapsto> True], Map.empty]"
    "interpreter exampleResolver = newInterpreter"
    by (simp_all add: exampleResolver_def newResolver_def)
  have l: "locals newInterpreter = Map.empty"
    by (simp add: newInterpreter_def)
  have h1: "1 < length (scopes exampleResolver)"
    and h2: "(scopes exampleResolver ! 1) (lexeme ?a) \<noteq> None"
    and h3: "\<forall>j. 1 < j \<and> j < length (scopes exampleResolver) \<longrightarrow>
        (scopes exampleResolver ! j) (lexeme ?a) = None"
    and h4: "\<forall>j<length (scopes exampleResolver). (scopes exampleResolver ! j) (lexeme ?c) = None"
    and h5: "\<forall>j<length (scopes ?rc). (scopes ?rc ! j) (lexeme ?t) = None"
    by (auto simp: sc less_Suc_eq numeral_3_eq_3)
  have 1: "resolveLocal 7 ?a exampleResolver =
      exampleResolver\<lparr>interpreter := newInterpreter\<lparr>locals := [7 \<mapsto> 1]\<rparr>\<rparr>"
    using resolveLocal_records_depth [where r = exampleResolver and i = 1 and name = ?a and e = 7
        and v = "LiteralE LitNil" and m = ?a] h1 h2 h3
    by (simp add: sc l)
  have 2: "resolveLocal 7 ?c exampleResolver = exampleResolver"
    using resolveLocal_records_depth [where r = exampleResolver and i = 0 and name = ?c and e = 7
        and v = "LiteralE LitNil" and m = ?c] h4
    by simp
  have 3: "resolveExpr (ThisE 7 ?t) ?rc = ?rc"
    using resolveLocal_records_depth [where r = ?rc and i = 0 and name = ?t and e = 7
        and v = "LiteralE LitNil" and m = ?t] h5
    by simp
  show ?thesis
    using 1 2 3 by simp
qed

section \<open>The resolver run twice\<close>

text \<open>
  Two resolver states agree up to the table \<open>L\<close> when they differ at most in the
  interpreter, and the side-table of the first is \<open>L\<close> overwritten by that of the second.
\<close>

definition agree :: "(nat \<rightharpoonup> nat) \<Rightarrow> Resolver \<Rightarrow> Resolver \<Rightarrow> bool" where
  "agree L r r0 =
     (scopes r = scopes r0 \<and> currentFunction r = currentFunction r0
      \<and> currentClass r = currentClass r0 \<and> rerrors r = rerrors r0
      \<and> locals (interpreter r) = L ++ locals (interpreter r0))"

lemma agreeD:
  "agree L r r0 \<Longrightarrow> scopes r = scopes r0 \<and> currentFunction r = currentFunction r0
      \<and> currentClass r = currentClass r0 \<and> rerrors r = rerrors r0"
  by (simp add: agree_def)

lemma agree_reportError: "agree L r r0 \<Longrightarrow> agree L (reportError t m r) (reportError t m r0)"
  by (simp add: agree_def reportError_def)

lemma agree_currScopeSet: "agree L r r0 \<Longrightarrow> agree L (currScopeSet n b r) (currScopeSet n b r0)"
  by (simp add: agree_def currScopeSet_def)

lemma agree_declareName: "agree L r r0 \<Longrightarrow> agree L (declareName n r) (declareName n r0)"
  using agreeD [of L r r0]
  by (auto simp: declareName_def Let_def intro!: agree_currScopeSet agree_reportError)

lemma agree_defineName: "agree L r r0 \<Longrightarrow> agree L (defineName n r) (defineName n r0)"
  using agreeD [of L r r0]
  by (auto simp: defineName_def intro!: agree_currScopeSet)

lemma agree_beginScope: "agree L r r0 \<Longrightarrow> agree L (beginScope r) (beginScope r0)"
  by (simp add: agree_def beginScope_def)

lemma agree_endScope: "agree L r r0 \<Longrightarrow> agree L (endScope r) (endScope r0)"
  by (simp add: agree_def endScope_def)

lemma agree_currentClass:
  "agree L r r0 \<Longrightarrow> agree L (r\<lparr>currentClass := c\<rparr>) (r0\<lparr>currentClass := c\<rparr>)"
  by (simp add: agree_def)

lemma agree_currentFunction:
  "agree L r r0 \<Longrightarrow> agree L (r\<lparr>currentFunction := c\<rparr>) (r0\<lparr>currentFunction := c\<rparr>)"
  by (simp add: agree_def)

lemma agree_if:
  "agree L a b \<Longrightarrow> agree L c d \<Longrightarrow> agree L (if P then a else c) (if P then b else d)"
  by simp

lemma agree_resolveLocalLoop:
  "agree L r r0 \<Longrightarrow> agree L (resolveLocalLoop e n k r) (resolveLocalLoop e n k r0)"
proof (induction k)
  case 0
  then show ?case by simp
next
  case (Suc k)
  then show ?case
    by (auto simp: agree_def resolve_def)
qed

lemma agree_resolveLocal: "agree L r r0 \<Longrightarrow> agree L (resolveLocal e n r) (resolveLocal e n r0)"
  using agreeD [of L r r0] agree_resolveLocalLoop [of L r r0 e n "length (scopes r0)"]
  by (simp add: resolveLocal_def)

lemma agree_resolveExpr:
  "agree L r r0 \<Longrightarrow> agree L (resolveExpr e r) (resolveExpr e r0)"
  "agree L r r0 \<Longrightarrow> agree L (resolveExprs es r) (resolveExprs es r0)"
proof (induction e r and es r arbitrary: r0 and r0 rule: resolveExpr_resolveExprs.induct)
  case (9 i keyword meth r)
  then show ?case
    using agreeD [of L r r0]
    by (auto intro!: agree_resolveLocal agree_reportError)
next
  case (10 i keyword r)
  then show ?case
    using agreeD [of L r r0]
    by (auto intro!: agree_resolveLocal agree_reportError)
next
  case (12 i name r)
  then show ?case
    using agreeD [of L r r0]
    by (auto intro!: agree_resolveLocal agree_reportError)
qed (simp_all add: agree_resolveLocal)

lemma agree_declareParams:
  "agree L r r0 \<Longrightarrow> agree L (declareParams ps r) (declareParams ps r0)"
  by (induction ps arbitrary: r r0) (simp_all add: agree_declareName agree_defineName)

lemma agree_resolveStmt:
  "agree L r r0 \<Longrightarrow> agree L (resolveStmt s r) (resolveStmt s r0)"
  "agree L r r0 \<Longrightarrow> agree L (resolveStmts ss r) (resolveStmts ss r0)"
  "agree L r r0 \<Longrightarrow> agree L (resolveFunction fn ty r) (resolveFunction fn ty r0)"
  "agree L r r0 \<Longrightarrow> agree L (resolveMethods ms r) (resolveMethods ms r0)"
proof (induction s r and ss r and fn ty r and ms r arbitrary: r0 and r0 and r0 and r0
    rule: resolveStmt_resolveStmts_resolveFunction_resolveMethods.induct)
  case (1 ss r)
  then show ?case
    by (simp add: agree_beginScope agree_endScope)
next
  case (2 name sc ms r)
  define pre where "pre = (\<lambda>r.
     (let r1 = defineName name (declareName name (r\<lparr>currentClass := CT_class\<rparr>));
          r2 = (case sc of
                  Some (i, sname) \<Rightarrow>
                    if lexeme name = lexeme sname
                    then reportError sname ''A class can't inherit from itself.'' r1
                    else r1
                | None \<Rightarrow> r1);
          r3 = (case sc of
                  Some (i, sname) \<Rightarrow> resolveExpr (VariableE i sname) (r2\<lparr>currentClass := CT_subclass\<rparr>)
                | None \<Rightarrow> r2);
          r4 = (case sc of
                  Some x \<Rightarrow> currScopeSet ''super'' True (beginScope r3)
                | None \<Rightarrow> r3)
      in currScopeSet ''this'' True (beginScope r4)))"
  define post where "post = (\<lambda>c r6.
     (let r7 = endScope r6;
          r8 = (case sc of Some x \<Rightarrow> endScope r7 | None \<Rightarrow> r7)
      in r8\<lparr>currentClass := c\<rparr>))"
  have eq: "resolveStmt (ClassS name sc ms) x = post (currentClass x) (resolveMethods ms (pre x))" for x
    by (simp add: pre_def post_def Let_def)
  note rules = agree_if agree_currScopeSet agree_beginScope agree_resolveExpr(1) agree_currentClass
    agree_reportError agree_defineName agree_declareName
  have a1: "agree L (pre r) (pre r0)"
  proof (cases sc)
    case None
    show ?thesis
      unfolding pre_def Let_def None option.case
      by (intro rules "2.prems")
  next
    case (Some p)
    obtain i sname where p: "p = (i, sname)"
      by (cases p)
    show ?thesis
      unfolding pre_def Let_def Some p option.case prod.case
      by (intro rules "2.prems")
  qed
  have a2: "agree L (resolveMethods ms (pre r)) (resolveMethods ms (pre r0))"
    using a1 unfolding pre_def Let_def by (rule "2.IH" [OF refl refl refl refl refl refl])
  have a3: "agree L x y \<Longrightarrow> agree L (post c x) (post c y)" for x y c
    unfolding post_def Let_def
    by (auto split: option.splits intro!: agree_currentClass agree_endScope)
  show ?case
    unfolding eq using a3 [OF a2] agreeD [OF "2.prems"] by simp
next
  case (4 fn r)
  then show ?case
    by (simp add: agree_defineName agree_declareName)
next
  case (5 c t e r)
  then show ?case
    by (auto simp: Let_def agree_resolveExpr(1) split: option.splits)
next
  case (7 keyword v r)
  then show ?case
    using agreeD [of L r r0]
    by (auto simp: Let_def split: option.splits intro!: agree_resolveExpr(1) agree_reportError)
next
  case (8 name init r)
  then show ?case
    by (auto split: option.splits intro!: agree_defineName agree_declareName agree_resolveExpr(1))
next
  case (12 name ps bd ty r)
  have a1: "agree L (declareParams ps (beginScope (r\<lparr>currentFunction := ty\<rparr>)))
      (declareParams ps (beginScope (r0\<lparr>currentFunction := ty\<rparr>)))"
    using "12.prems"
    by (intro agree_declareParams agree_beginScope agree_currentFunction)
  have "agree L (resolveStmts bd (declareParams ps (beginScope (r\<lparr>currentFunction := ty\<rparr>))))
      (resolveStmts bd (declareParams ps (beginScope (r0\<lparr>currentFunction := ty\<rparr>))))"
    using a1 by (rule "12.IH" [OF refl refl refl])
  then show ?case
    using agreeD [OF "12.prems"]
    by (simp add: Let_def agree_endScope agree_currentFunction)
qed (simp_all add: agree_resolveExpr(1))

lemma map_add_twice: "(L ++ W) ++ W = L ++ (W :: nat \<rightharpoonup> nat)"
  by (rule ext) (simp add: map_add_def split: option.splits)

text \<open>
  Claim C8. Whatever the interpreter's side-table holds before, after a run of a
  fresh resolver it is that table overwritten by the entries the run records, and
  these are the entries recorded into an empty table: they depend on the program
  alone. So a second run of a fresh resolver on the same program, on the same
  interpreter, leaves the table (and makes the reports) of the first run.
\<close>

theorem resolver_twice_same_table:
  "locals (interpreter (resolveStmts ast (newResolver i)))
     = locals i ++ locals (interpreter (resolveStmts ast (newResolver newInterpreter)))
   \<and> locals (interpreter (resolveStmts ast
          (newResolver (interpreter (resolveStmts ast (newResolver i))))))
     = locals (interpreter (resolveStmts ast (newResolver i)))
   \<and> rerrors (resolveStmts ast (newResolver (interpreter (resolveStmts ast (newResolver i)))))
     = rerrors (resolveStmts ast (newResolver i))"
proof -
  let ?W = "locals (interpreter (resolveStmts ast (newResolver newInterpreter)))"
  have start: "agree (locals j) (newResolver j) (newResolver newInterpreter)" for j
    by (simp add: agree_def newResolver_def newInterpreter_def)
  have run: "agree (locals j) (resolveStmts ast (newResolver j))
      (resolveStmts ast (newResolver newInterpreter))" for j
    using start by (rule agree_resolveStmt(2))
  have 1: "locals (interpreter (resolveStmts ast (newResolver j))) = locals j ++ ?W" for j
    using run [of j] by (simp add: agree_def)
  have 2: "rerrors (resolveStmts ast (newResolver j))
      = rerrors (resolveStmts ast (newResolver newInterpreter))" for j
    using run [of j] by (simp add: agree_def)
  show ?thesis
    using 1 [of i] 1 [of "interpreter (resolveStmts ast (newResolver i))"]
      2 [of i] 2 [of "interpreter (resolveStmts ast (newResolver i))"]
    by (simp add: map_add_twice)
qed

text \<open>
  The program \<^verbatim>\<open>{ var a; a; }\<close> with the variable expression numbered 0, resolved twice
  on an interpreter whose table holds an entry for another expression.
\<close>

theorem resolver_twice_same_table_witness:
  "locals (interpreter (resolveStmts
      [BlockS [VarS (Token T_identifier ''a'' NoLiteral 1) None,
               ExpressionS (VariableE 0 (Token T_identifier ''a'' NoLiteral 1))]]
      (newResolver (newInterpreter\<lparr>locals := [5 \<mapsto> 3]\<rparr>))))
     = [5 \<mapsto> 3, 0 \<mapsto> 0]
   \<and> locals (interpreter (resolveStmts
      [BlockS [VarS (Token T_identifier ''a'' NoLiteral 1) None,
               ExpressionS (VariableE 0 (Token T_identifier ''a'' NoLiteral 1))]]
      (newResolver (interpreter (resolveStmts
        [BlockS [VarS (Token T_identifier ''a'' NoLiteral 1) None,
                 ExpressionS (VariableE 0 (Token T_identifier ''a'' NoLiteral 1))]]
        (newResolver (newInterpreter\<lparr>locals := [5 \<mapsto> 3]\<rparr>)))))))
     = [5 \<mapsto> 3, 0 \<mapsto> 0]"
proof -
  let ?ast = "[BlockS [VarS (Token T_identifier ''a'' NoLiteral 1) None,
               ExpressionS (VariableE 0 (Token T_identifier ''a'' NoLiteral 1))]]"
  have W: "locals (interpreter (resolveStmts ?ast (newResolver newInterpreter))) = [0 \<mapsto> 0]"
    by (simp add: newResolver_def newInterpreter_def beginScope_def endScope_def declareName_def
        defineName_def currScopeSet_def resolveLocal_def resolve_def)
  let ?i = "newInterpreter\<lparr>locals := [5 \<mapsto> 3]\<rparr>"
  note t = resolver_twice_same_table [of ?ast ?i]
  have A: "locals (interpreter (resolveStmts ?ast (newResolver ?i))) = locals ?i ++ [0 \<mapsto> 0]"
    using t [THEN conjunct1] by (simp only: W)
  have B: "locals (interpreter (resolveStmts ?ast
          (newResolver (interpreter (resolveStmts ?ast (newResolver ?i))))))
     = locals ?i ++ [0 \<mapsto> 0]"
    using t [THEN conjunct2, THEN conjunct1] by (simp only: A)
  have C: "locals ?i ++ [0 \<mapsto> 0] = [5 \<mapsto> 3, 0 \<mapsto> 0]"
    by simp
  show ?thesis
    by (simp only: A B C)
qed

section \<open>Blocks restore the environment\<close>

text \<open>
  Claim C5. Whatever the statements do, and whichever way the block is left (it
  completes, a \<open>Return\<close> or a \<open>RuntimeError\<close> or any other exception passes through),
  the interpreter's \<^verbatim>\<open>environment\<close> after \<^verbatim>\<open>executeBlock\<close> is the one it had before the
  call: the outcome is that of the statements run in the given environment, and
  only the field \<^verbatim>\<open>environment\<close> is reset.
\<close>

theorem executeBlock_restores_environment:
  "environment (snd (executeBlock h n statements environ st)) = environment st
   \<and> executeBlock h (Suc n) statements environ st =
       (fst (executeStmts h n statements (st\<lparr>environment := environ\<rparr>)),
        (snd (executeStmts h n statements (st\<lparr>environment := environ\<rparr>)))
          \<lparr>environment := environment st\<rparr>)"
  by (cases n) (simp_all add: split_def Let_def)

text \<open>
  Three blocks run in a new environment (address 1) from the initial state, whose
  environment is the global one (address 0): \<^verbatim>\<open>var a;\<close> completes, \<^verbatim>\<open>return;\<close> leaves by
  the \<open>Return\<close> signal, \<^verbatim>\<open>-nil;\<close> by a runtime error. Each time the environment is 0
  afterwards.
\<close>

theorem executeBlock_restores_environment_witness:
  "executeBlock exampleHost 5 [VarS (Token T_identifier ''a'' NoLiteral 1) None] 1
       (newInterpreter\<lparr>envs := envs newInterpreter @ [\<lparr>enclosing = Some 0, vals = Map.empty\<rparr>]\<rparr>)
     = (Inr (), newInterpreter\<lparr>envs := envs newInterpreter @ [\<lparr>enclosing = Some 0, vals = [''a'' \<mapsto> VNil]\<rparr>]\<rparr>)
   \<and> executeBlock exampleHost 5 [ReturnS (Token T_return ''return'' NoLiteral 1) None] 1
       (newInterpreter\<lparr>envs := envs newInterpreter @ [\<lparr>enclosing = Some 0, vals = Map.empty\<rparr>]\<rparr>)
     = (Inl (Return VNil),
        newInterpreter\<lparr>envs := envs newInterpreter @ [\<lparr>enclosing = Some 0, vals = Map.empty\<rparr>]\<rparr>)
   \<and> executeBlock exampleHost 5 [ExpressionS (UnaryE (Token T_minus ''-'' NoLiteral 1) (LiteralE LitNil))] 1
       (newInterpreter\<lparr>envs := envs newInterpreter @ [\<lparr>enclosing = Some 0, vals = Map.empty\<rparr>]\<rparr>)
     = (Inl (RuntimeError (Token T_minus ''-'' NoLiteral 1) ''Operand must be a number.''),
        newInterpreter\<lparr>envs := envs newInterpreter @ [\<lparr>enclosing = Some 0, vals = Map.empty\<rparr>]\<rparr>)
   \<and> environment newInterpreter = 0"
proof -
  let ?st = "newInterpreter\<lparr>envs := envs newInterpreter @ [\<lparr>enclosing = Some 0, vals = Map.empty\<rparr>]\<rparr>"
  let ?a = "[VarS (Token T_identifier ''a'' NoLiteral 1) None]"
  let ?b = "[ReturnS (Token T_return ''return'' NoLiteral 1) None]"
  let ?c = "[ExpressionS (UnaryE (Token T_minus ''-'' NoLiteral 1) (LiteralE LitNil))]"
  have five: "(5::nat) = Suc 4" "(4::nat) = Suc 3" "(3::nat) = Suc 2" "(2::nat) = Suc 1"
    by simp_all
  have e: "environment ?st = 0"
    by (simp add: newInterpreter_def globals_def)
  have a: "executeStmts exampleHost 4 ?a (?st\<lparr>environment := 1\<rparr>) =
      (Inr (), ?st\<lparr>environment := 1, envs := envs newInterpreter @ [\<lparr>enclosing = Some 0, vals = [''a'' \<mapsto> VNil]\<rparr>]\<rparr>)"
    by (simp add: five newInterpreter_def envDefine_def)
  have b: "executeStmts exampleHost 4 ?b (?st\<lparr>environment := 1\<rparr>) = (Inl (Return VNil), ?st\<lparr>environment := 1\<rparr>)"
    by (simp add: five)
  have c: "executeStmts exampleHost 4 ?c (?st\<lparr>environment := 1\<rparr>) =
      (Inl (RuntimeError (Token T_minus ''-'' NoLiteral 1) ''Operand must be a number.''),
       ?st\<lparr>environment := 1\<rparr>)"
    by (simp add: five unaryOp_def literalValue_def checkNumberOperandError_def)
  note t = executeBlock_restores_environment [where h = exampleHost and n = 4 and environ = 1 and st = ?st,
      THEN conjunct2, folded five(1)]
  have "executeBlock exampleHost 5 ?a 1 ?st =
      (Inr (), newInterpreter\<lparr>envs := envs newInterpreter @ [\<lparr>enclosing = Some 0, vals = [''a'' \<mapsto> VNil]\<rparr>]\<rparr>)"
    unfolding t [of ?a] a by (simp add: newInterpreter_def globals_def)
  moreover have "executeBlock exampleHost 5 ?b 1 ?st = (Inl (Return VNil), ?st)"
    unfolding t [of ?b] b by (simp add: newInterpreter_def globals_def)
  moreover have "executeBlock exampleHost 5 ?c 1 ?st =
      (Inl (RuntimeError (Token T_minus ''-'' NoLiteral 1) ''Operand must be a number.''), ?st)"
    unfolding t [of ?c] c by (simp add: newInterpreter_def globals_def)
  ultimately show ?thesis
    by (simp add: newInterpreter_def globals_def)
qed

section \<open>Assignment to a property\<close>

text \<open>
  Claim C10. In \<^verbatim>\<open>object.name = value\<close> the object expression is evaluated first. If it
  yields a value that is not an instance, the result is the runtime error "Only
  instances have fields." and the state is the one left by the object expression:
  the value expression is not evaluated. If it yields an instance, the value
  expression is evaluated next, in that state, and the field is set only when it
  yields a value.
\<close>

theorem evaluateSet_checks_object_first:
  "(evaluate h n object st = (Inr obj, st1) \<longrightarrow> (\<forall>i. obj \<noteq> VInstance i) \<longrightarrow>
      evaluate h (Suc n) (SetE object name valueExpr) st =
        (Inl (RuntimeError name ''Only instances have fields.''), st1))
   \<and> (evaluate h n object st = (Inr (VInstance i), st1) \<longrightarrow>
        evaluate h (Suc n) (SetE object name valueExpr) st =
          (case evaluate h n valueExpr st1 of
             (Inl e, st2) \<Rightarrow> (Inl e, st2)
           | (Inr v, st2) \<Rightarrow> (Inr v, instanceSet i name v st2)))
   \<and> (evaluate h n object st = (Inl e, st1) \<longrightarrow>
        evaluate h (Suc n) (SetE object name valueExpr) st = (Inl e, st1))"
  by (cases obj) simp_all

text \<open>
  \<^verbatim>\<open>nil.x = (clock = nil)\<close> in the initial state: the error is raised and the global
  \<open>clock\<close> keeps its value, although the value expression alone would overwrite it.
\<close>

theorem evaluateSet_checks_object_first_witness:
  "evaluate exampleHost 3 (SetE (LiteralE LitNil) (Token T_identifier ''x'' NoLiteral 1)
       (AssignmentE 0 (Token T_identifier ''clock'' NoLiteral 1) (LiteralE LitNil))) newInterpreter
     = (Inl (RuntimeError (Token T_identifier ''x'' NoLiteral 1) ''Only instances have fields.''),
        newInterpreter)
   \<and> evaluate exampleHost 2 (AssignmentE 0 (Token T_identifier ''clock'' NoLiteral 1) (LiteralE LitNil))
       newInterpreter
     = (Inr VNil, newInterpreter\<lparr>envs := [\<lparr>enclosing = None, vals = [''clock'' \<mapsto> VNil]\<rparr>]\<rparr>)"
proof -
  let ?x = "Token T_identifier ''x'' NoLiteral 1"
  let ?v = "AssignmentE 0 (Token T_identifier ''clock'' NoLiteral 1) (LiteralE LitNil)"
  have n: "(3::nat) = Suc 2" "(2::nat) = Suc 1"
    by simp_all
  have o: "evaluate exampleHost 2 (LiteralE LitNil) newInterpreter = (Inr VNil, newInterpreter)"
    by (simp add: n literalValue_def)
  have 1: "evaluate exampleHost 3 (SetE (LiteralE LitNil) ?x ?v) newInterpreter
     = (Inl (RuntimeError ?x ''Only instances have fields.''), newInterpreter)"
    using evaluateSet_checks_object_first [where h = exampleHost and n = 2 and object = "LiteralE LitNil"
        and st = newInterpreter and obj = VNil and ?st1.0 = newInterpreter and name = ?x
        and valueExpr = ?v and i = 0 and e = Timeout] o
    by (simp add: n(1) [symmetric])
  have 2: "evaluate exampleHost 2 ?v newInterpreter
     = (Inr VNil, newInterpreter\<lparr>envs := [\<lparr>enclosing = None, vals = [''clock'' \<mapsto> VNil]\<rparr>]\<rparr>)"
    by (simp add: n literalValue_def assignVariable_def newInterpreter_def globals_def
        envAssign.simps envDefine_def)
  show ?thesis
    using 1 2 by simp
qed

section \<open>Equality\<close>

lemma exampleClassA_state:
  "exampleClassA =
     newInterpreter
       \<lparr>envs := [\<lparr>enclosing = None, vals = [''clock'' \<mapsto> VClock, ''A'' \<mapsto> VClass 0]\<rparr>],
        classes := [\<lparr>cname = ''A'', superclass = None, methods = Map.empty\<rparr>]\<rparr>"
  by (simp add: exampleClassA_def numeral_2_eq_2 defineClass_def newInterpreter_def globals_def
      envDefine_def envAssign.simps)

text \<open>
  \<^verbatim>\<open>A() == A()\<close> after \<^verbatim>\<open>class A {}\<close>: the two calls create the instances 0 and 1, which
  have the same class and the same (empty) fields, and the comparison is false.
\<close>

theorem isEqual_structural_counterexample:
  "fst (evaluate exampleHost 3
        (BinaryE (CallE (VariableE 0 (Token T_identifier ''A'' NoLiteral 1))
                        (Token T_right_paren '')'' NoLiteral 1) [])
                 (Token T_equal_equal ''=='' NoLiteral 1)
                 (CallE (VariableE 1 (Token T_identifier ''A'' NoLiteral 1))
                        (Token T_right_paren '')'' NoLiteral 1) []))
        exampleClassA)
     = Inr (VBool False)
   \<and> instances (snd (evaluate exampleHost 3
        (BinaryE (CallE (VariableE 0 (Token T_identifier ''A'' NoLiteral 1))
                        (Token T_right_paren '')'' NoLiteral 1) [])
                 (Token T_equal_equal ''=='' NoLiteral 1)
                 (CallE (VariableE 1 (Token T_identifier ''A'' NoLiteral 1))
                        (Token T_right_paren '')'' NoLiteral 1) []))
        exampleClassA))
     = [\<lparr>klass = 0, fieldMap = Map.empty\<rparr>, \<lparr>klass = 0, fieldMap = Map.empty\<rparr>]
   \<and> \<not> isEqual (VInstance 0) (VInstance 1)"
proof -
  let ?A = "Token T_identifier ''A'' NoLiteral 1"
  let ?p = "Token T_right_paren '')'' NoLiteral 1"
  let ?i = "\<lparr>klass = 0, fieldMap = Map.empty\<rparr>"
  have call: "evaluate exampleHost (Suc (Suc 0)) (CallE (VariableE i ?A) ?p [])
        (exampleClassA\<lparr>instances := is\<rparr>)
      = (Inr (VInstance (length is)), exampleClassA\<lparr>instances := is @ [?i]\<rparr>)" for i "is"
    by (simp add: exampleClassA_state lookUpVariable_def newInterpreter_def
        globals_def envGet.simps mapGet_def checkCall_def isCallable_def arity_def
        findMethod.simps)
  have start: "exampleClassA = exampleClassA\<lparr>instances := []\<rparr>"
    by (simp add: exampleClassA_state newInterpreter_def)
  have "evaluate exampleHost (Suc (Suc (Suc 0)))
        (BinaryE (CallE (VariableE 0 ?A) ?p []) (Token T_equal_equal ''=='' NoLiteral 1)
                 (CallE (VariableE 1 ?A) ?p [])) (exampleClassA\<lparr>instances := []\<rparr>)
     = (Inr (VBool (isEqual (VInstance 0) (VInstance 1))),
        exampleClassA\<lparr>instances := [?i, ?i]\<rparr>)"
    by (subst evaluate.simps)
      (simp add: call binaryOp_def isEqual_def strictEquals_def del: evaluate.simps One_nat_def)
  then have run: "evaluate exampleHost 3
        (BinaryE (CallE (VariableE 0 ?A) ?p []) (Token T_equal_equal ''=='' NoLiteral 1)
                 (CallE (VariableE 1 ?A) ?p [])) exampleClassA
     = (Inr (VBool (isEqual (VInstance 0) (VInstance 1))),
        exampleClassA\<lparr>instances := [?i, ?i]\<rparr>)"
    unfolding numeral_3_eq_3 using start by simp
  have "\<not> isEqual (VInstance 0) (VInstance 1)"
    by (simp add: isEqual_def strictEquals_def)
  then show ?thesis
    unfolding run by simp
qed

text \<open>
  Claim C2, as the code has it. \<open>nil\<close> equals \<open>nil\<close>; \<open>nil\<close> and a value that is not \<open>nil\<close>
  are unequal, whichever side \<open>nil\<close> is on. Two numbers are compared as doubles: they
  are equal exactly when neither is a NaN (the 63 bits below the sign exceed those
  of infinity) and they have the same bits or both are a zero (all 63 bits below
  the sign are 0); so a NaN equals nothing, itself included, and the two zeros are
  equal. When one of the two values is not a number, they are equal exactly when
  they are the same value: the same tag, and then the same Boolean, the same string,
  or, for a function, a class or an instance, the same object (two objects are
  unequal however alike they are). Once both operands have yielded values, \<open>==\<close> and
  \<open>!=\<close> yield a Boolean and never an error.
\<close>

theorem isEqual_characterisation:
  "isEqual VNil VNil
   \<and> (b \<noteq> VNil \<longrightarrow> \<not> isEqual VNil b)
   \<and> (a \<noteq> VNil \<longrightarrow> \<not> isEqual a VNil)
   \<and> (isEqual (VNumber x) (VNumber y) \<longleftrightarrow>
        x AND 0x7FFFFFFFFFFFFFFF \<le> 0x7FF0000000000000
        \<and> y AND 0x7FFFFFFFFFFFFFFF \<le> 0x7FF0000000000000
        \<and> (x = y \<or> (x AND 0x7FFFFFFFFFFFFFFF = 0 \<and> y AND 0x7FFFFFFFFFFFFFFF = 0)))
   \<and> (((\<forall>u. a \<noteq> VNumber u) \<or> (\<forall>u. b \<noteq> VNumber u)) \<longrightarrow> isEqual a b = (a = b))
   \<and> (isEqual (VBool p) (VBool q) \<longleftrightarrow> p = q)
   \<and> (isEqual (VString s) (VString t) \<longleftrightarrow> s = t)
   \<and> (isEqual (VFunction i) (VFunction j) \<longleftrightarrow> i = j)
   \<and> (isEqual (VClass i) (VClass j) \<longleftrightarrow> i = j)
   \<and> (isEqual (VInstance i) (VInstance j) \<longleftrightarrow> i = j)
   \<and> \<not> isEqual (VNumber 0x7FF8000000000000) (VNumber 0x7FF8000000000000)
   \<and> isEqual (VNumber 0x8000000000000000) (VNumber 0)
   \<and> isEqual (VNumber 0x3FF0000000000000) (VNumber 0x3FF0000000000000)
   \<and> \<not> isEqual (VNumber 0x3FF0000000000000) (VNumber 0x4000000000000000)
   \<and> (evaluate h n left st = (Inr a, st1) \<longrightarrow> evaluate h n right st1 = (Inr b, st2) \<longrightarrow>
        ttype operator = T_equal_equal \<longrightarrow>
        evaluate h (Suc n) (BinaryE left operator right) st = (Inr (VBool (isEqual a b)), st2))
   \<and> (evaluate h n left st = (Inr a, st1) \<longrightarrow> evaluate h n right st1 = (Inr b, st2) \<longrightarrow>
        ttype operator = T_bang_equal \<longrightarrow>
        evaluate h (Suc n) (BinaryE left operator right) st = (Inr (VBool (\<not> isEqual a b)), st2))"
proof -
  have 1: "a \<noteq> VNil \<Longrightarrow> \<not> isEqual a VNil"
    by (cases a) (simp_all add: isEqual_def strictEquals_def)
  have 2: "isEqual VNil VNil" "b \<noteq> VNil \<Longrightarrow> \<not> isEqual VNil b"
    by (simp_all add: isEqual_def strictEquals_def)
  have 3: "isEqual (VNumber x) (VNumber y) \<longleftrightarrow>
        x AND 0x7FFFFFFFFFFFFFFF \<le> 0x7FF0000000000000
        \<and> y AND 0x7FFFFFFFFFFFFFFF \<le> 0x7FF0000000000000
        \<and> (x = y \<or> (x AND 0x7FFFFFFFFFFFFFFF = 0 \<and> y AND 0x7FFFFFFFFFFFFFFF = 0))" for x y
    by (simp add: isEqual_def strictEquals_def numberEquals_def isNaN_def isZero_def not_less)
  have 4: "isEqual a b = (a = b)" if "(\<forall>u. a \<noteq> VNumber u) \<or> (\<forall>u. b \<noteq> VNumber u)"
    using that by (cases a; cases b) (auto simp: isEqual_def strictEquals_def)
  have 5: "isEqual (VBool p) (VBool q) \<longleftrightarrow> p = q" "isEqual (VString s) (VString t) \<longleftrightarrow> s = t"
    "isEqual (VFunction i) (VFunction j) \<longleftrightarrow> i = j" "isEqual (VClass i) (VClass j) \<longleftrightarrow> i = j"
    "isEqual (VInstance i) (VInstance j) \<longleftrightarrow> i = j"
    by (simp_all add: isEqual_def strictEquals_def)
  have 6: "\<not> isEqual (VNumber 0x7FF8000000000000) (VNumber 0x7FF8000000000000)"
    "isEqual (VNumber 0x8000000000000000) (VNumber 0)"
    "isEqual (VNumber 0x3FF0000000000000) (VNumber 0x3FF0000000000000)"
    "\<not> isEqual (VNumber 0x3FF0000000000000) (VNumber 0x4000000000000000)"
    unfolding 3 by simp_all
  have 7: "evaluate h n left st = (Inr a, st1) \<Longrightarrow> evaluate h n right st1 = (Inr b, st2) \<Longrightarrow>
        ttype operator = T_equal_equal \<Longrightarrow>
        evaluate h (Suc n) (BinaryE left operator right) st = (Inr (VBool (isEqual a b)), st2)"
    by (simp add: binaryOp_def)
  have 8: "evaluate h n left st = (Inr a, st1) \<Longrightarrow> evaluate h n right st1 = (Inr b, st2) \<Longrightarrow>
        ttype operator = T_bang_equal \<Longrightarrow>
        evaluate h (Suc n) (BinaryE left operator right) st = (Inr (VBool (\<not> isEqual a b)), st2)"
    by (simp add: binaryOp_def)
  show ?thesis
    using 1 2 3 [of x y] 4 5 6 7 8 by (simp del: evaluate.simps)
qed

text \<open>
  \<^verbatim>\<open>nil == true\<close>, \<^verbatim>\<open>"a" != 1\<close> and \<^verbatim>\<open>1 == 2\<close> evaluated in the initial state (the numbers
  are the doubles 1.0 and 2.0).
\<close>

theorem isEqual_characterisation_witness:
  "evaluate exampleHost 2 (BinaryE (LiteralE LitNil) (Token T_equal_equal ''=='' NoLiteral 1)
       (LiteralE (LitBool True))) newInterpreter
     = (Inr (VBool False), newInterpreter)
   \<and> evaluate exampleHost 2 (BinaryE (LiteralE (LitString ''a'')) (Token T_bang_equal ''!='' NoLiteral 1)
       (LiteralE (LitNumber 0x3FF0000000000000))) newInterpreter
     = (Inr (VBool True), newInterpreter)
   \<and> evaluate exampleHost 2 (BinaryE (LiteralE (LitNumber 0x3FF0000000000000))
       (Token T_equal_equal ''=='' NoLiteral 1)
       (LiteralE (LitNumber 0x4000000000000000))) newInterpreter
     = (Inr (VBool False), newInterpreter)"
proof -
  let ?e = "Token T_equal_equal ''=='' NoLiteral 1"
  let ?n = "Token T_bang_equal ''!='' NoLiteral 1"
  have v: "evaluate exampleHost 1 (LiteralE l) newInterpreter = (Inr (literalValue l), newInterpreter)" for l
    by simp
  note t = isEqual_characterisation [where h = exampleHost and n = 1 and st = newInterpreter
      and ?st1.0 = newInterpreter and ?st2.0 = newInterpreter and x = 0 and y = 0]
  have 1: "evaluate exampleHost (Suc 1) (BinaryE (LiteralE LitNil) ?e (LiteralE (LitBool True))) newInterpreter
     = (Inr (VBool False), newInterpreter)"
    using t [where left = "LiteralE LitNil" and right = "LiteralE (LitBool True)" and a = VNil
        and b = "VBool True" and operator = ?e]
      v [of LitNil] v [of "LitBool True"]
    by (simp add: literalValue_def del: evaluate.simps)
  have 2: "evaluate exampleHost (Suc 1) (BinaryE (LiteralE (LitString ''a'')) ?n
       (LiteralE (LitNumber 0x3FF0000000000000))) newInterpreter
     = (Inr (VBool True), newInterpreter)"
    using t [where left = "LiteralE (LitString ''a'')"
        and right = "LiteralE (LitNumber 0x3FF0000000000000)" and a = "VString ''a''"
        and b = "VNumber 0x3FF0000000000000" and operator = ?n]
      v [of "LitString ''a''"] v [of "LitNumber 0x3FF0000000000000"]
    by (simp add: literalValue_def del: evaluate.simps)
  have 3: "evaluate exampleHost (Suc 1) (BinaryE (LiteralE (LitNumber 0x3FF0000000000000)) ?e
       (LiteralE (LitNumber 0x4000000000000000))) newInterpreter
     = (Inr (VBool False), newInterpreter)"
    using t [where left = "LiteralE (LitNumber 0x3FF0000000000000)"
        and right = "LiteralE (LitNumber 0x4000000000000000)" and a = "VNumber 0x3FF0000000000000"
        and b = "VNumber 0x4000000000000000" and operator = ?e]
      v [of "LitNumber 0x3FF0000000000000"] v [of "LitNumber 0x4000000000000000"]
    by (simp add: literalValue_def del: evaluate.simps)
  have two: "(2::nat) = Suc 1"
    by simp
  show ?thesis
    unfolding two using 1 2 3 by (simp del: evaluate.simps)
qed

section \<open>The for statement\<close>

lemma thenP_Inr: "thenP r f = (Inr y, p') \<longleftrightarrow> (\<exists>x p1. r = (Inr x, p1) \<and> f x p1 = (Inr y, p'))"
  by (auto simp: thenP_def split: prod.splits sum.splits)

lemma checkP_frame: "checkP ty p = (Inr b, p1) \<Longrightarrow> p1 = p"
  by (auto simp: checkP_def thenP_Inr isAtEndP_def split: option.splits if_splits)

text \<open>
  What \<^verbatim>\<open>consume\<close> and \<^verbatim>\<open>previous()\<close> return after a successful \<^verbatim>\<open>check\<close> or \<^verbatim>\<open>match\<close> is the
  token that was current.
\<close>

lemma checkP_True:
  "checkP ty p = (Inr True, p1) \<Longrightarrow>
     p1 = p \<and> (\<exists>t. peekP p = Some t \<and> ttype t = ty \<and> ttype t \<noteq> T_eof)"
  by (auto simp: checkP_def thenP_Inr isAtEndP_def split: option.splits if_splits)

lemma advanceP_after_check:
  "peekP p = Some t \<Longrightarrow> ttype t \<noteq> T_eof \<Longrightarrow>
     advanceP p = (Inr (Some t), p\<lparr>currentP := currentP p + 1\<rparr>)"
  by (auto simp: advanceP_def thenP_def isAtEndP_def peekP_def previousP_def tokenAt_def
      split: if_splits)

lemma consume_advances:
  assumes "consume ty message p = (Inr t, p1)"
  shows "peekP p = Some t \<and> ttype t = ty \<and> p1 = p\<lparr>currentP := currentP p + 1\<rparr>"
proof -
  from assms obtain found q where c: "checkP ty p = (Inr found, q)"
    and r: "(if found then
         thenP (advanceP q) (\<lambda>t p2.
           case t of None \<Rightarrow> (Inl HostTypeError, p2) | Some token \<Rightarrow> (Inr token, p2))
       else thenP (errorP (peekP q) message q) (\<lambda>u p2. (Inl ParseError, p2))) = (Inr t, p1)"
    unfolding consume_def thenP_Inr by blast
  have found: found
    using r by (cases found) (simp_all add: thenP_Inr)
  with c obtain u where u: "q = p" "peekP p = Some u" "ttype u = ty" "ttype u \<noteq> T_eof"
    by (auto dest: checkP_True)
  from r found u show ?thesis
    by (simp add: advanceP_after_check thenP_def)
qed

lemma matchP_previous:
  "matchP types p = (Inr True, p1) \<Longrightarrow>
     \<exists>t. peekP p = Some t \<and> ttype t \<in> set types \<and> p1 = p\<lparr>currentP := currentP p + 1\<rparr>
       \<and> previousToken p1 = (Inr t, p1)"
proof (induction types)
  case Nil
  then show ?case
    by simp
next
  case (Cons ty types)
  from Cons.prems obtain found q where c: "checkP ty p = (Inr found, q)"
    and r: "(if found then thenP (advanceP q) (\<lambda>t p2. (Inr True, p2)) else matchP types q) = (Inr True, p1)"
    by (auto simp: thenP_Inr)
  have q: "q = p"
    using c by (rule checkP_frame)
  show ?case
  proof (cases found)
    case True
    with c q obtain t where t: "peekP p = Some t" "ttype t = ty" "ttype t \<noteq> T_eof"
      by (auto dest: checkP_True)
    with r True q have "p1 = p\<lparr>currentP := currentP p + 1\<rparr>"
      by (simp add: advanceP_after_check thenP_def)
    with t show ?thesis
      by (auto simp: previousToken_def previousP_def peekP_def)
  next
    case False
    with r q Cons.IH show ?thesis
      by auto
  qed
qed






end
